theory Spec2Isabelle
  imports Main "HOL-Library.Word"
begin

section \<open>Strings and numbers of the runtime\<close>

text \<open>
  A JavaScript string is a sequence of 16-bit UTF-16 code units.  ASCII literals of the
  source are written \<open>js ''...''\<close>; the Japanese literals are given by their code units.
\<close>

type_synonym jsstring = "16 word list"

definition js :: "string \<Rightarrow> jsstring" where
  "js s = map of_char s"

datatype exn = SyntaxError | TypeError | RangeError | URIError | Error string

text \<open>
  A Number of the language is a double: \<open>NaN\<close>, an infinity, the negative zero, or another
  finite value.  A finite double is a dyadic rational; \<open>Num m k\<close> stands for \<open>m / 2 ^ k\<close>, with
  \<open>k = 0\<close> or \<open>m\<close> odd, so that an integer \<open>n\<close> is \<open>Num n 0\<close> and equal values are equal terms.
\<close>

datatype number = NaN | PosInfinity | NegInfinity | NegZero | Num int nat

function bit_length :: "int \<Rightarrow> int" where
  "bit_length n = (if n \<le> 0 then 0 else 1 + bit_length (n div 2))"
  by pat_completeness auto
termination
  by (relation "measure nat") auto

declare bit_length.simps [simp del]

text \<open>\<open>floor_log2 num den\<close> is the integer \<open>L\<close> with \<open>2 ^ L \<le> num / den < 2 ^ (L + 1)\<close>.\<close>

definition floor_log2 :: "int \<Rightarrow> int \<Rightarrow> int" where
  "floor_log2 num den =
     (let g = bit_length num - bit_length den
      in if (if 0 \<le> g then den * 2 ^ nat g \<le> num else den \<le> num * 2 ^ nat (- g))
         then g else g - 1)"

text \<open>The integer nearest to \<open>num / den\<close>; of two nearest integers, the even one.\<close>

definition round_half_even :: "int \<Rightarrow> int \<Rightarrow> int" where
  "round_half_even num den =
     (let q = num div den; r = num mod den
      in if den < 2 * r \<or> (2 * r = den \<and> odd q) then q + 1 else q)"

text \<open>\<open>dyadic m k\<close> is \<open>m / 2 ^ k\<close> in lowest terms.\<close>

fun dyadic :: "int \<Rightarrow> nat \<Rightarrow> number" where
  "dyadic m 0 = Num m 0"
| "dyadic m (Suc k) = (if odd m then Num m (Suc k) else dyadic (m div 2) k)"

definition signed_zero :: "bool \<Rightarrow> number" where
  "signed_zero neg = (if neg then NegZero else Num 0 0)"

text \<open>
  \<open>double_of_ratio neg num den\<close> is the double nearest to the rational \<open>num / den\<close> (with
  \<open>0 \<le> num\<close> and \<open>0 < den\<close>), negated when \<open>neg\<close> holds.  The rational is scaled by a power of
  two into a significand of 53 bits, or of fewer bits at the smallest exponent, and rounded
  to the nearest integer, ties to even; a result of \<open>2 ^ 1024\<close> or more is an infinity.  An
  integer up to \<open>2 ^ 53\<close> is a double as it is.
\<close>

definition double_of_ratio :: "bool \<Rightarrow> int \<Rightarrow> int \<Rightarrow> number" where
  "double_of_ratio neg num den =
     (if num = 0 then signed_zero neg
      else if den = 1 \<and> num \<le> 2 ^ 53 then Num (if neg then - num else num) 0
      else
        (let e = max (floor_log2 num den - 52) (- 1074);
             r = (if e < 0 then round_half_even (num * 2 ^ nat (- e)) den
                  else round_half_even num (den * 2 ^ nat e))
         in if r = 0 then signed_zero neg
            else if 0 \<le> e then
              (if 2 ^ 1024 \<le> r * 2 ^ nat e then (if neg then NegInfinity else PosInfinity)
               else Num ((if neg then - r else r) * 2 ^ nat e) 0)
            else dyadic (if neg then - r else r) (nat (- e))))"

text \<open>The double nearest to the decimal \<open>m * 10 ^ e\<close>, with \<open>0 \<le> m\<close>, negated when \<open>neg\<close> holds.\<close>

definition decimal_number :: "bool \<Rightarrow> int \<Rightarrow> int \<Rightarrow> number" where
  "decimal_number neg m e =
     (if 0 \<le> e then double_of_ratio neg (m * 10 ^ nat e) 1
      else double_of_ratio neg m (10 ^ nat (- e)))"

text \<open>\<open>x + 1\<close>, and \<open>i < x\<close> for an integer \<open>i\<close>.\<close>

fun plus_one :: "number \<Rightarrow> number" where
  "plus_one NaN = NaN"
| "plus_one PosInfinity = PosInfinity"
| "plus_one NegInfinity = NegInfinity"
| "plus_one NegZero = Num 1 0"
| "plus_one (Num m k) = double_of_ratio (m + 2 ^ k < 0) \<bar>m + 2 ^ k\<bar> (2 ^ k)"

fun less_number :: "int \<Rightarrow> number \<Rightarrow> bool" where
  "less_number i NaN = False"
| "less_number i PosInfinity = True"
| "less_number i NegInfinity = False"
| "less_number i NegZero = (i < 0)"
| "less_number i (Num m k) = (i * 2 ^ k < m)"

subsection \<open>Conversion of a number to a string\<close>

function digits :: "int \<Rightarrow> jsstring" where
  "digits n = (if n < 10 then [of_int (48 + n)] else digits (n div 10) @ [of_int (48 + n mod 10)])"
  by pat_completeness auto
termination
  by (relation "measure nat") auto

declare digits.simps [simp del]

definition int_to_string :: "int \<Rightarrow> jsstring" where
  "int_to_string i = (if i < 0 then js ''-'' @ digits (- i) else digits i)"

text \<open>
  The text of the decimal \<open>m * 10 ^ e\<close>: its digits without trailing zeros, placed by the
  position \<open>n\<close> of the decimal point as the language prescribes for \<open>Number::toString\<close>.
\<close>

definition decimal_to_string :: "int \<Rightarrow> int \<Rightarrow> jsstring" where
  "decimal_to_string m e =
     (if m = 0 then js ''0''
      else
        (let ds = digits \<bar>m\<bar>;
             sig = rev (dropWhile (\<lambda>c. c = 0x30) (rev ds));
             k = int (length sig);
             n = int (length ds) + e;
             x = n - 1;
             es = (if x < 0 then js ''-'' else js ''+'') @ digits \<bar>x\<bar>;
             body =
               (if k \<le> n \<and> n \<le> 21 then sig @ replicate (nat (n - k)) 0x30
                else if 0 < n \<and> n \<le> 21 then take (nat n) sig @ js ''.'' @ drop (nat n) sig
                else if - 6 < n \<and> n \<le> 0 then js ''0.'' @ replicate (nat (- n)) 0x30 @ sig
                else if k = 1 then sig @ js ''e'' @ es
                else take 1 sig @ js ''.'' @ drop 1 sig @ js ''e'' @ es)
         in (if m < 0 then js ''-'' else []) @ body))"

text \<open>\<open>decimal_point num den\<close> is the integer \<open>n\<close> with \<open>10 ^ (n - 1) \<le> num / den < 10 ^ n\<close>.\<close>

definition decimal_point :: "int \<Rightarrow> int \<Rightarrow> int" where
  "decimal_point num den =
     (if den \<le> num then int (length (digits (num div den)))
      else
        (case find (\<lambda>j. den \<le> num * 10 ^ nat j) [1 .. int (length (digits den))] of
           Some j \<Rightarrow> 1 - j
         | None \<Rightarrow> 0))"

text \<open>
  The digits that print a positive double \<open>num / den\<close>: the shortest decimal \<open>s * 10 ^ e\<close> that the
  double is nearest to.  \<open>shortest_candidate num den e\<close> tries the two decimals with the
  exponent \<open>e\<close> next to the value and prefers the closer one.  Seventeen digits always do.
\<close>

definition shortest_candidate :: "int \<Rightarrow> int \<Rightarrow> int \<Rightarrow> (int \<times> int) option" where
  "shortest_candidate num den e =
     (let a = (if 0 \<le> e then num else num * 10 ^ nat (- e));
          b = (if 0 \<le> e then den * 10 ^ nat e else den);
          lo = a div b;
          hi = lo + 1;
          x = double_of_ratio False num den;
          lo_ok = (0 < lo \<and> decimal_number False lo e = x);
          hi_ok = (decimal_number False hi e = x)
      in if lo_ok \<and> hi_ok then
           (if a - lo * b < hi * b - a \<or> (a - lo * b = hi * b - a \<and> even lo)
            then Some (lo, e) else Some (hi, e))
         else if lo_ok then Some (lo, e)
         else if hi_ok then Some (hi, e)
         else None)"

definition shortest_digits :: "int \<Rightarrow> int \<Rightarrow> int \<times> int" where
  "shortest_digits num den =
     (let n = decimal_point num den
      in case List.map_filter (\<lambda>k. shortest_candidate num den (n - k)) [1 .. 17] of
           c # cs \<Rightarrow> c
         | [] \<Rightarrow> (0, 0))"

text \<open>\<open>Number::toString\<close>.  The digits of an integer up to \<open>2 ^ 53\<close> are its shortest decimal.\<close>

fun number_to_string :: "number \<Rightarrow> jsstring" where
  "number_to_string NaN = js ''NaN''"
| "number_to_string PosInfinity = js ''Infinity''"
| "number_to_string NegInfinity = js ''-Infinity''"
| "number_to_string NegZero = js ''0''"
| "number_to_string (Num m k) =
     (if k = 0 \<and> \<bar>m\<bar> \<le> 2 ^ 53 then decimal_to_string m 0
      else
        (case shortest_digits \<bar>m\<bar> (2 ^ k) of
           (s, e) \<Rightarrow> decimal_to_string (if m < 0 then - s else s) e))"

section \<open>Dates and the date-fns functions the route imports\<close>

text \<open>
  A \<open>Date\<close> holds a time value, an integer number of milliseconds since the epoch of at most
  \<open>maxTime\<close> in absolute value, or is the Invalid Date.  \<open>TimeClip\<close> makes a time value of a
  number: it drops the fraction, and a number out of the range gives the Invalid Date.
\<close>

datatype jsdate = InvalidDate | Date int

definition msPerDay :: int where
  "msPerDay = 86400000"

definition maxTime :: int where
  "maxTime = 8640000000000000"

definition trunc_div :: "int \<Rightarrow> int \<Rightarrow> int" where
  "trunc_div a b = sgn a * sgn b * (\<bar>a\<bar> div \<bar>b\<bar>)"

definition clip :: "int \<Rightarrow> jsdate" where
  "clip t = (if \<bar>t\<bar> \<le> maxTime then Date t else InvalidDate)"

fun TimeClip :: "number \<Rightarrow> jsdate" where
  "TimeClip (Num m k) = clip (trunc_div m (2 ^ k))"
| "TimeClip NegZero = Date 0"
| "TimeClip _ = InvalidDate"

text \<open>
  What a function of the program can read from the process besides its arguments: the
  local time zone, given by the offset of local time from UTC in milliseconds (a zone with
  one offset throughout, such as Asia/Tokyo), and the \<open>Date.parse\<close> of the engine, which the
  language leaves to the engine for texts outside its own date format.
\<close>

record host =
  timezone :: int
  Date_parse :: "jsstring \<Rightarrow> number"

text \<open>
  The three date-fns functions.  \<open>differenceInDays\<close> counts the full days between two dates
  and truncates towards zero; with one offset throughout, a full day has \<open>msPerDay\<close>
  milliseconds.  \<open>addDays\<close> copies the date and sets the day of the month of the copy, which
  moves it by whole days and clips the result.  \<open>format\<close> with the pattern \<open>yyyy-MM-dd\<close>
  prints the local calendar date and throws a RangeError on the Invalid Date.
\<close>

fun differenceInDays :: "jsdate \<Rightarrow> jsdate \<Rightarrow> number" where
  "differenceInDays (Date l) (Date r) = Num (trunc_div (l - r) msPerDay) 0"
| "differenceInDays _ _ = NaN"

fun addDays :: "jsdate \<Rightarrow> int \<Rightarrow> jsdate" where
  "addDays (Date t) amount = clip (t + amount * msPerDay)"
| "addDays InvalidDate amount = InvalidDate"

text \<open>The proleptic Gregorian calendar date (year, month, day) of a day number since the epoch.\<close>

definition civil_from_days :: "int \<Rightarrow> int \<times> int \<times> int" where
  "civil_from_days z0 =
     (let z = z0 + 719468;
          era = z div 146097;
          doe = z - era * 146097;
          yoe = (doe - doe div 1460 + doe div 36524 - doe div 146096) div 365;
          doy = doe - (365 * yoe + yoe div 4 - yoe div 100);
          mp = (5 * doy + 2) div 153;
          d = doy - (153 * mp + 2) div 5 + 1;
          m = (if mp < 10 then mp + 3 else mp - 9);
          y = yoe + era * 400 + (if m \<le> 2 then 1 else 0)
      in (y, m, d))"

definition addLeadingZeros :: "int \<Rightarrow> nat \<Rightarrow> jsstring" where
  "addLeadingZeros n targetLength =
     (let s = digits n in replicate (targetLength - length s) 0x30 @ s)"

text \<open>\<open>format_day\<close> prints the calendar date of a day number with the pattern \<open>yyyy-MM-dd\<close>.\<close>

definition format_day :: "int \<Rightarrow> jsstring" where
  "format_day z =
     (case civil_from_days z of (y, m, d) \<Rightarrow>
        addLeadingZeros (if y > 0 then y else 1 - y) 4 @ js ''-''
        @ addLeadingZeros m 2 @ js ''-'' @ addLeadingZeros d 2)"

fun format :: "host \<Rightarrow> jsdate \<Rightarrow> exn + jsstring" where
  "format h InvalidDate = Inl RangeError"
| "format h (Date t) = Inr (format_day ((t + timezone h) div msPerDay))"

section \<open>The travel plan\<close>

datatype activity_type = Sightseeing | Meal | Accommodation | Transportation

record Activity =
  time :: jsstring
  activity :: jsstring
  location :: jsstring
  description :: jsstring
  type :: activity_type

record TravelPlanDay =
  day :: int
  date :: jsstring
  activities :: "Activity list"

record TravelPlan =
  destination :: jsstring
  summary :: jsstring
  days :: "TravelPlanDay list"

subsection \<open>The literals of the fallback plan\<close>

text \<open>Each definition is one Japanese literal of \<open>createFallbackPlan\<close>, as UTF-16 code units.\<close>

definition lit_breakfast :: jsstring where
  "lit_breakfast = [0x671D, 0x98DF]"

definition lit_hotel_restaurant :: jsstring where
  "lit_hotel_restaurant = [0x306E, 0x30DB, 0x30C6, 0x30EB, 0x30EC, 0x30B9, 0x30C8, 0x30E9, 0x30F3]"

definition lit_hotel_breakfast :: jsstring where
  "lit_hotel_breakfast = [0x30DB, 0x30C6, 0x30EB, 0x3067, 0x306E, 0x671D, 0x98DF]"

definition lit_sightseeing :: jsstring where
  "lit_sightseeing = [0x89B3, 0x5149]"

definition lit_popular_spot :: jsstring where
  "lit_popular_spot = [0x306E, 0x4EBA, 0x6C17, 0x30B9, 0x30DD, 0x30C3, 0x30C8]"

definition lit_enjoy :: jsstring where
  "lit_enjoy = [0x3092, 0x697D, 0x3057, 0x3080]"

definition lit_lunch :: jsstring where
  "lit_lunch = [0x663C, 0x98DF]"

definition lit_local_restaurant :: jsstring where
  "lit_local_restaurant =
     [0x306E, 0x30ED, 0x30FC, 0x30AB, 0x30EB, 0x30EC, 0x30B9, 0x30C8, 0x30E9, 0x30F3]"

definition lit_local_food :: jsstring where
  "lit_local_food = [0x5730, 0x5143, 0x306E, 0x6599, 0x7406, 0x3092, 0x697D, 0x3057, 0x3080]"

definition lit_activity :: jsstring where
  "lit_activity = [0x30A2, 0x30AF, 0x30C6, 0x30A3, 0x30D3, 0x30C6, 0x30A3]"

definition lit_activity_spot :: jsstring where
  "lit_activity_spot =
     [0x306E, 0x30A2, 0x30AF, 0x30C6, 0x30A3, 0x30D3, 0x30C6, 0x30A3, 0x30B9, 0x30DD, 0x30C3, 0x30C8]"

definition lit_related_activity :: jsstring where
  "lit_related_activity =
     [0x306B, 0x95A2, 0x9023, 0x3057, 0x305F, 0x30A2, 0x30AF, 0x30C6, 0x30A3, 0x30D3, 0x30C6, 0x30A3]"

definition lit_dinner :: jsstring where
  "lit_dinner = [0x5915, 0x98DF]"

definition lit_rated_restaurant :: jsstring where
  "lit_rated_restaurant =
     [0x306E, 0x8A55, 0x4FA1, 0x306E, 0x9AD8, 0x3044, 0x30EC, 0x30B9, 0x30C8, 0x30E9, 0x30F3]"

definition lit_special_dinner :: jsstring where
  "lit_special_dinner = [0x7279, 0x5225, 0x306A, 0x5915, 0x98DF]"

definition lit_stay :: jsstring where
  "lit_stay = [0x5BBF, 0x6CCA]"

definition lit_hotel :: jsstring where
  "lit_hotel = [0x306E, 0x30DB, 0x30C6, 0x30EB]"

definition lit_comfortable_stay :: jsstring where
  "lit_comfortable_stay =
     [0x5FEB, 0x9069, 0x306A, 0x30DB, 0x30C6, 0x30EB, 0x3067, 0x306E, 0x5BBF, 0x6CCA]"

definition lit_summary_to :: jsstring where
  "lit_summary_to = [0x3078, 0x306E]"

definition lit_summary_days :: jsstring where
  "lit_summary_days =
     [0x65E5, 0x9593, 0x306E, 0x65C5, 0x884C, 0x30D7, 0x30E9, 0x30F3, 0x3067, 0x3059, 0x3002]"

definition lit_summary_middle :: jsstring where
  "lit_summary_middle =
     [0x3092, 0x4E2D, 0x5FC3, 0x306B, 0x3001, 0x5730, 0x5143, 0x306E, 0x6587, 0x5316, 0x3084,
      0x6599, 0x7406, 0x3092, 0x697D, 0x3057, 0x3080, 0x3053, 0x3068, 0x304C, 0x3067, 0x304D,
      0x307E, 0x3059, 0x3002, 0x4E3B, 0x8981, 0x306A, 0x89B3, 0x5149, 0x30B9, 0x30DD, 0x30C3,
      0x30C8, 0x3092, 0x8A2A, 0x308C, 0x306A, 0x304C, 0x3089, 0x3001]"

definition lit_summary_end :: jsstring where
  "lit_summary_end =
     [0x306E, 0x9B45, 0x529B, 0x3092, 0x5B58, 0x5206, 0x306B, 0x4F53, 0x9A13, 0x3067, 0x304D,
      0x308B, 0x30D7, 0x30E9, 0x30F3, 0x306B, 0x306A, 0x3063, 0x3066, 0x3044, 0x307E, 0x3059,
      0x3002]"

subsection \<open>createFallbackPlan\<close>

text \<open>The six object literals pushed for every day of the fallback plan.\<close>

definition fallback_activities :: "jsstring \<Rightarrow> jsstring \<Rightarrow> Activity list" where
  "fallback_activities dest style =
     [\<lparr>time = js ''08:00'', activity = lit_breakfast,
       location = dest @ lit_hotel_restaurant,
       description = lit_hotel_breakfast, type = Meal\<rparr>,
      \<lparr>time = js ''10:00'', activity = dest @ lit_sightseeing,
       location = dest @ lit_popular_spot,
       description = style @ lit_enjoy, type = Sightseeing\<rparr>,
      \<lparr>time = js ''12:30'', activity = lit_lunch,
       location = dest @ lit_local_restaurant,
       description = lit_local_food, type = Meal\<rparr>,
      \<lparr>time = js ''14:00'', activity = lit_activity,
       location = dest @ lit_activity_spot,
       description = style @ lit_related_activity, type = Sightseeing\<rparr>,
      \<lparr>time = js ''18:00'', activity = lit_dinner,
       location = dest @ lit_rated_restaurant,
       description = lit_special_dinner, type = Meal\<rparr>,
      \<lparr>time = js ''20:00'', activity = lit_stay,
       location = dest @ lit_hotel,
       description = lit_comfortable_stay, type = Accommodation\<rparr>]"

text \<open>
  The \<open>for\<close> loop of \<open>createFallbackPlan\<close>: \<open>i\<close> is the loop counter and \<open>acc\<close> the \<open>days\<close>
  array built so far.  An exception of \<open>format\<close> leaves the loop.  The loop ends: the dates
  \<open>addDays startDate i\<close> leave the range of time values as \<open>i\<close> grows, and \<open>format\<close> throws then.
\<close>

function fallback_loop ::
  "host \<Rightarrow> jsstring \<Rightarrow> number \<Rightarrow> jsdate \<Rightarrow> jsstring \<Rightarrow> int \<Rightarrow> TravelPlanDay list
     \<Rightarrow> exn + TravelPlanDay list"
where
  "fallback_loop h dest numberOfDays startDate style i acc =
     (if less_number i numberOfDays then
        (case format h (addDays startDate i) of
           Inl e \<Rightarrow> Inl e
         | Inr formattedDate \<Rightarrow>
             fallback_loop h dest numberOfDays startDate style (i + 1)
               (acc @ [\<lparr>day = i + 1, date = formattedDate,
                         activities = fallback_activities dest style\<rparr>]))
      else Inr acc)"
  by pat_completeness auto
termination
proof (relation "measure (\<lambda>(h, dest, n, startDate, style, i, acc).
         case startDate of InvalidDate \<Rightarrow> 0
         | Date t \<Rightarrow> nat ((maxTime - t) div msPerDay + 1 - i))", goal_cases)
  case 1
  show ?case by simp
next
  case (2 h dest numberOfDays startDate style i acc formattedDate)
  then obtain t where t: "startDate = Date t" and c: "\<bar>t + i * msPerDay\<bar> \<le> maxTime"
    by (cases startDate) (auto simp: clip_def split: if_splits)
  have "i * msPerDay \<le> maxTime - t"
    using c by simp
  then have "i * msPerDay div msPerDay \<le> (maxTime - t) div msPerDay"
    by (rule zdiv_mono1) (simp add: msPerDay_def)
  then have "i \<le> (maxTime - t) div msPerDay"
    by (simp add: msPerDay_def)
  then show ?case
    using t by simp
qed

declare fallback_loop.simps [simp del]

definition createFallbackPlan ::
  "host \<Rightarrow> jsstring \<Rightarrow> number \<Rightarrow> jsdate \<Rightarrow> jsstring \<Rightarrow> exn + TravelPlan"
where
  "createFallbackPlan h dest numberOfDays startDate style =
     (case fallback_loop h dest numberOfDays startDate style 0 [] of
        Inl e \<Rightarrow> Inl e
      | Inr ds \<Rightarrow>
          Inr \<lparr>destination = dest,
               summary = dest @ lit_summary_to @ number_to_string numberOfDays
                         @ lit_summary_days @ style @ lit_summary_middle
                         @ dest @ lit_summary_end,
               days = ds\<rparr>)"

section \<open>JSON values and JSON.parse\<close>

text \<open>
  The values of the runtime that can come out of \<open>JSON.parse\<close>, and \<open>undefined\<close>.  An object
  is the list of its own properties, with distinct keys, in the order in which the language
  enumerates them: the keys that are array indices first, in ascending order, then the
  other keys in the order of their creation.
\<close>

datatype jsval =
    JUndefined
  | JNull
  | JBool bool
  | JNum number
  | JStr jsstring
  | JArr "jsval list"
  | JObj "(jsstring \<times> jsval) list"

datatype token =
    TLBrace | TRBrace | TLBracket | TRBracket | TColon | TComma
  | TString jsstring
  | TAtom jsval

definition is_ws :: "16 word \<Rightarrow> bool" where
  "is_ws c \<longleftrightarrow> c = 0x20 \<or> c = 0x09 \<or> c = 0x0A \<or> c = 0x0D"

definition is_digit :: "16 word \<Rightarrow> bool" where
  "is_digit c \<longleftrightarrow> 0x30 \<le> c \<and> c \<le> 0x39"

definition hex_value :: "16 word \<Rightarrow> 16 word option" where
  "hex_value c =
     (if 0x30 \<le> c \<and> c \<le> 0x39 then Some (c - 0x30)
      else if 0x61 \<le> c \<and> c \<le> 0x66 then Some (c - 0x57)
      else if 0x41 \<le> c \<and> c \<le> 0x46 then Some (c - 0x37)
      else None)"

definition hex4 :: "16 word \<Rightarrow> 16 word \<Rightarrow> 16 word \<Rightarrow> 16 word \<Rightarrow> 16 word option" where
  "hex4 a b c d =
     (case (hex_value a, hex_value b, hex_value c, hex_value d) of
        (Some x, Some y, Some z, Some w) \<Rightarrow> Some (((x * 16 + y) * 16 + z) * 16 + w)
      | _ \<Rightarrow> None)"

text \<open>The character after a backslash, for the escapes of one character.\<close>

definition unescape :: "16 word \<Rightarrow> 16 word option" where
  "unescape c =
     (if c = 0x22 \<or> c = 0x5C \<or> c = 0x2F then Some c
      else if c = 0x62 then Some 0x08
      else if c = 0x66 then Some 0x0C
      else if c = 0x6E then Some 0x0A
      else if c = 0x72 then Some 0x0D
      else if c = 0x74 then Some 0x09
      else None)"

text \<open>
  \<open>lex_string cs acc\<close> reads a string literal whose opening quote has been consumed; \<open>acc\<close>
  holds the code units read so far, in reverse.  It returns the string and the rest of the input.
\<close>

fun lex_string :: "jsstring \<Rightarrow> jsstring \<Rightarrow> (jsstring \<times> jsstring) option" where
  "lex_string [] acc = None"
| "lex_string (c # cs) acc =
     (if c = 0x22 then Some (rev acc, cs)
      else if c = 0x5C then
        (case cs of
           [] \<Rightarrow> None
         | e # r \<Rightarrow>
             if e = 0x75 then
               (if length r < 4 then None
                else
                  (case hex4 (r ! 0) (r ! 1) (r ! 2) (r ! 3) of
                     None \<Rightarrow> None
                   | Some w \<Rightarrow> lex_string (drop 4 r) (w # acc)))
             else
               (case unescape e of
                  None \<Rightarrow> None
                | Some w \<Rightarrow> lex_string r (w # acc)))
      else if c < 0x20 then None
      else lex_string cs (c # acc))"

definition int_of_digits :: "jsstring \<Rightarrow> int" where
  "int_of_digits s = foldl (\<lambda>a c. 10 * a + (uint c - 48)) 0 s"

definition is_number_char :: "16 word \<Rightarrow> bool" where
  "is_number_char c \<longleftrightarrow>
     is_digit c \<or> c = 0x2D \<or> c = 0x2B \<or> c = 0x2E \<or> c = 0x65 \<or> c = 0x45"

text \<open>
  The number grammar of JSON: an optional minus, an integer part without a leading zero,
  an optional fraction and an optional exponent.  \<open>parse_number\<close> cuts the literal into
  these parts, \<open>number_value\<close> checks them and builds the value, the double nearest to
  the decimal that the literal denotes.
\<close>

definition number_value ::
  "bool \<Rightarrow> jsstring \<Rightarrow> bool \<Rightarrow> jsstring \<Rightarrow> bool \<Rightarrow> bool \<Rightarrow> jsstring \<Rightarrow> jsstring \<Rightarrow> jsval option"
where
  "number_value neg ip has_frac fp has_exp eneg ep rest =
     (let m = int_of_digits (ip @ fp);
          x = int_of_digits ep
      in if ip = [] \<or> (length ip > 1 \<and> hd ip = 0x30) then None
         else if has_frac \<and> fp = [] then None
         else if has_exp \<and> (ep = [] \<or> \<not> list_all is_digit ep) then None
         else if \<not> has_exp \<and> rest \<noteq> [] then None
         else Some (JNum (decimal_number neg m ((if eneg then - x else x) - int (length fp)))))"

definition parse_number :: "jsstring \<Rightarrow> jsval option" where
  "parse_number s =
     (let neg = (s \<noteq> [] \<and> hd s = 0x2D);
          s1 = (if neg then tl s else s);
          ip = takeWhile is_digit s1;
          s2 = dropWhile is_digit s1;
          has_frac = (s2 \<noteq> [] \<and> hd s2 = 0x2E);
          fp = (if has_frac then takeWhile is_digit (tl s2) else []);
          s3 = (if has_frac then dropWhile is_digit (tl s2) else s2);
          has_exp = (s3 \<noteq> [] \<and> (hd s3 = 0x65 \<or> hd s3 = 0x45));
          s4 = (if has_exp then tl s3 else s3);
          eneg = (has_exp \<and> s4 \<noteq> [] \<and> hd s4 = 0x2D);
          s5 = (if has_exp \<and> s4 \<noteq> [] \<and> (hd s4 = 0x2D \<or> hd s4 = 0x2B) then tl s4 else s4);
          ep = (if has_exp then s5 else [])
      in number_value neg ip has_frac fp has_exp eneg ep s3)"

lemma lex_string_length:
  "lex_string cs acc = Some (s, rest) \<Longrightarrow> length rest \<le> length cs"
  by (induction cs acc rule: lex_string.induct)
     (force split: if_splits list.splits option.splits)+

text \<open>
  \<open>next_token c cs\<close> reads the token that starts with the code unit \<open>c\<close>, which is not white
  space, and returns it with the rest of the input.
\<close>

definition next_token :: "16 word \<Rightarrow> jsstring \<Rightarrow> (token \<times> jsstring) option" where
  "next_token c cs =
     (if c = 0x7B then Some (TLBrace, cs)
      else if c = 0x7D then Some (TRBrace, cs)
      else if c = 0x5B then Some (TLBracket, cs)
      else if c = 0x5D then Some (TRBracket, cs)
      else if c = 0x3A then Some (TColon, cs)
      else if c = 0x2C then Some (TComma, cs)
      else if c = 0x22 then
        (case lex_string cs [] of
           None \<Rightarrow> None
         | Some (s, rest) \<Rightarrow> Some (TString s, rest))
      else if c = 0x2D \<or> is_digit c then
        (case parse_number (c # takeWhile is_number_char cs) of
           None \<Rightarrow> None
         | Some v \<Rightarrow> Some (TAtom v, dropWhile is_number_char cs))
      else if take 4 (c # cs) = js ''true'' then Some (TAtom (JBool True), drop 3 cs)
      else if take 5 (c # cs) = js ''false'' then Some (TAtom (JBool False), drop 4 cs)
      else if take 4 (c # cs) = js ''null'' then Some (TAtom JNull, drop 3 cs)
      else None)"

lemma next_token_length:
  assumes "next_token c cs = Some (tok, rest)"
  shows "length rest \<le> length cs"
proof -
  have "length rest \<le> length cs" if "lex_string cs [] = Some (s, rest)" for s
    using that by (rule lex_string_length)
  moreover have "length (dropWhile is_number_char cs) \<le> length cs"
    by (rule length_dropWhile_le)
  ultimately show ?thesis
    using assms unfolding next_token_def
    by (auto split: if_splits option.splits prod.splits)
qed

function tokenize :: "jsstring \<Rightarrow> token list option" where
  "tokenize [] = Some []"
| "tokenize (c # cs) =
     (if is_ws c then tokenize cs
      else
        (case next_token c cs of
           None \<Rightarrow> None
         | Some (tok, rest) \<Rightarrow> map_option ((#) tok) (tokenize rest)))"
  by pat_completeness auto
termination
proof (relation "measure length", goal_cases)
  case (3 c cs x tok rest)
  then show ?case using next_token_length [of c cs tok rest] by simp
qed simp_all

declare tokenize.simps [simp del]

text \<open>
  The parser proper runs over the tokens with a stack of the containers that are open.
  \<open>InArray es\<close> is an array with the elements \<open>es\<close> read so far; \<open>InObject ms k\<close> is an
  object with the members \<open>ms\<close> read so far and \<open>k\<close> the key whose value is awaited.
\<close>

datatype frame = InArray "jsval list" | InObject "(jsstring \<times> jsval) list" jsstring

datatype expect = Value | ValueOrClose | KeyOrClose | Key | Colon | CommaOrClose | Finished jsval

text \<open>
  An array index is the canonical decimal text of an integer below \<open>2 ^ 32 - 1\<close>.  Defining a
  property that exists already replaces its value and keeps its place; a new property takes
  its place in the order of enumeration.
\<close>

definition array_index :: "jsstring \<Rightarrow> int option" where
  "array_index k =
     (if k \<noteq> [] \<and> list_all is_digit k \<and> (length k = 1 \<or> hd k \<noteq> 0x30) \<and> length k \<le> 10
         \<and> int_of_digits k < 4294967295
      then Some (int_of_digits k) else None)"

definition key_before :: "jsstring \<Rightarrow> jsstring \<Rightarrow> bool" where
  "key_before k k' =
     (case (array_index k, array_index k') of
        (Some i, Some j) \<Rightarrow> i < j
      | (Some i, None) \<Rightarrow> True
      | _ \<Rightarrow> False)"

fun put_member :: "jsstring \<Rightarrow> jsval \<Rightarrow> (jsstring \<times> jsval) list \<Rightarrow> (jsstring \<times> jsval) list" where
  "put_member k v [] = [(k, v)]"
| "put_member k v ((k', v') # ms) =
     (if k' = k then (k, v) # ms
      else if key_before k k' then (k, v) # (k', v') # ms
      else (k', v') # put_member k v ms)"

fun reduce :: "jsval \<Rightarrow> frame list \<Rightarrow> expect \<times> frame list" where
  "reduce v [] = (Finished v, [])"
| "reduce v (InArray es # st) = (CommaOrClose, InArray (es @ [v]) # st)"
| "reduce v (InObject ms k # st) = (CommaOrClose, InObject (put_member k v ms) k # st)"

fun begin_value :: "token \<Rightarrow> frame list \<Rightarrow> (expect \<times> frame list) option" where
  "begin_value (TAtom v) st = Some (reduce v st)"
| "begin_value (TString s) st = Some (reduce (JStr s) st)"
| "begin_value TLBrace st = Some (KeyOrClose, InObject [] [] # st)"
| "begin_value TLBracket st = Some (ValueOrClose, InArray [] # st)"
| "begin_value _ st = None"

fun shift :: "expect \<times> frame list \<Rightarrow> token \<Rightarrow> (expect \<times> frame list) option" where
  "shift (Value, st) tok = begin_value tok st"
| "shift (ValueOrClose, st) tok =
     (case (tok, st) of
        (TRBracket, InArray es # st') \<Rightarrow> Some (reduce (JArr es) st')
      | _ \<Rightarrow> begin_value tok st)"
| "shift (KeyOrClose, st) tok =
     (case (tok, st) of
        (TString s, InObject ms k # st') \<Rightarrow> Some (Colon, InObject ms s # st')
      | (TRBrace, InObject ms k # st') \<Rightarrow> Some (reduce (JObj ms) st')
      | _ \<Rightarrow> None)"
| "shift (Key, st) tok =
     (case (tok, st) of
        (TString s, InObject ms k # st') \<Rightarrow> Some (Colon, InObject ms s # st')
      | _ \<Rightarrow> None)"
| "shift (Colon, st) tok = (case tok of TColon \<Rightarrow> Some (Value, st) | _ \<Rightarrow> None)"
| "shift (CommaOrClose, st) tok =
     (case (tok, st) of
        (TComma, InArray es # st') \<Rightarrow> Some (Value, st)
      | (TRBracket, InArray es # st') \<Rightarrow> Some (reduce (JArr es) st')
      | (TComma, InObject ms k # st') \<Rightarrow> Some (Key, st)
      | (TRBrace, InObject ms k # st') \<Rightarrow> Some (reduce (JObj ms) st')
      | _ \<Rightarrow> None)"
| "shift (Finished v, st) tok = None"

fun run :: "expect \<times> frame list \<Rightarrow> token list \<Rightarrow> (expect \<times> frame list) option" where
  "run p [] = Some p"
| "run p (tok # toks) = (case shift p tok of None \<Rightarrow> None | Some p' \<Rightarrow> run p' toks)"

definition JSON_parse :: "jsstring \<Rightarrow> exn + jsval" where
  "JSON_parse text =
     (case tokenize text of
        None \<Rightarrow> Inl SyntaxError
      | Some toks \<Rightarrow>
          (case run (Value, []) toks of
             Some (Finished v, []) \<Rightarrow> Inr v
           | _ \<Rightarrow> Inl SyntaxError))"

section \<open>Operations of the language on these values\<close>

text \<open>Sequencing of steps that may throw: the first exception ends the block.\<close>

definition and_then :: "exn + 'a \<Rightarrow> ('a \<Rightarrow> exn + 'b) \<Rightarrow> exn + 'b" where
  "and_then m f = (case m of Inl e \<Rightarrow> Inl e | Inr x \<Rightarrow> f x)"

text \<open>
  Reading a property, \<open>v.k\<close> or \<open>v[k]\<close>.  Reading from \<open>undefined\<close> or \<open>null\<close> throws a
  TypeError.  Arrays and strings have \<open>length\<close> and their indices.  Inherited properties are
  left out: none of the names that the routes read is defined on a built-in prototype, with
  one exception, \<open>link\<close> of a string, which is a function; \<open>JSON.stringify\<close> treats a function
  as it treats \<open>undefined\<close>, and it is read as \<open>JUndefined\<close> here.
\<close>

definition property :: "(jsstring \<times> jsval) list \<Rightarrow> jsstring \<Rightarrow> jsval" where
  "property ms k = (case map_of ms k of None \<Rightarrow> JUndefined | Some v \<Rightarrow> v)"

fun js_get :: "jsval \<Rightarrow> jsstring \<Rightarrow> exn + jsval" where
  "js_get JUndefined k = Inl TypeError"
| "js_get JNull k = Inl TypeError"
| "js_get (JObj ms) k = Inr (property ms k)"
| "js_get (JArr xs) k =
     Inr (if k = js ''length'' then JNum (Num (int (length xs)) 0)
          else (case array_index k of
                  Some i \<Rightarrow> if i < int (length xs) then xs ! nat i else JUndefined
                | None \<Rightarrow> JUndefined))"
| "js_get (JStr s) k =
     Inr (if k = js ''length'' then JNum (Num (int (length s)) 0)
          else (case array_index k of
                  Some i \<Rightarrow> if i < int (length s) then JStr [s ! nat i] else JUndefined
                | None \<Rightarrow> JUndefined))"
| "js_get (JBool b) k = Inr JUndefined"
| "js_get (JNum n) k = Inr JUndefined"

text \<open>Truthiness, as tested by \<open>!\<close>, \<open>&&\<close> and \<open>||\<close>.\<close>

fun js_truthy :: "jsval \<Rightarrow> bool" where
  "js_truthy JUndefined = False"
| "js_truthy JNull = False"
| "js_truthy (JBool b) = b"
| "js_truthy (JNum n) = (case n of NaN \<Rightarrow> False | NegZero \<Rightarrow> False | Num m k \<Rightarrow> m \<noteq> 0 | _ \<Rightarrow> True)"
| "js_truthy (JStr s) = (s \<noteq> [])"
| "js_truthy (JArr xs) = True"
| "js_truthy (JObj ms) = True"

fun join :: "jsstring \<Rightarrow> jsstring list \<Rightarrow> jsstring" where
  "join sep [] = []"
| "join sep [s] = s"
| "join sep (s # t # ss) = s @ sep @ join sep (t # ss)"

text \<open>
  Conversion to a string, as a template literal and \<open>encodeURIComponent\<close> perform it.  An
  array is joined with commas, \<open>undefined\<close> and \<open>null\<close> elements giving the empty text.  An
  object that came out of \<open>JSON.parse\<close> inherits \<open>toString\<close> and \<open>valueOf\<close>, unless it has own
  properties of these names; an own property holds a JSON value, which cannot be called.
  So with an own \<open>toString\<close> neither method yields a primitive, and the conversion throws a
  TypeError; without it the inherited \<open>toString\<close> answers.
\<close>

fun js_to_string :: "jsval \<Rightarrow> exn + jsstring"
  and join_elements :: "jsval list \<Rightarrow> exn + jsstring list"
where
  "js_to_string JUndefined = Inr (js ''undefined'')"
| "js_to_string JNull = Inr (js ''null'')"
| "js_to_string (JBool b) = Inr (if b then js ''true'' else js ''false'')"
| "js_to_string (JNum n) = Inr (number_to_string n)"
| "js_to_string (JStr s) = Inr s"
| "js_to_string (JArr xs) =
     (case join_elements xs of Inl e \<Rightarrow> Inl e | Inr ss \<Rightarrow> Inr (join (js '','') ss))"
| "js_to_string (JObj ms) =
     (if js ''toString'' \<in> set (map fst ms) then Inl TypeError else Inr (js ''[object Object]''))"
| "join_elements [] = Inr []"
| "join_elements (v # vs) =
     (case (if v = JUndefined \<or> v = JNull then Inr [] else js_to_string v) of
        Inl e \<Rightarrow> Inl e
      | Inr s \<Rightarrow> (case join_elements vs of Inl e \<Rightarrow> Inl e | Inr ss \<Rightarrow> Inr (s # ss)))"

text \<open>
  Conversion to a primitive value, as the \<open>Date\<close> constructor and a comparison perform it: an
  array or an object gives what its \<open>toString\<close> gives, since the inherited \<open>valueOf\<close> returns
  the object itself and an own one cannot be called.
\<close>

definition to_primitive :: "jsval \<Rightarrow> exn + jsval" where
  "to_primitive v =
     (case v of
        JArr xs \<Rightarrow> and_then (js_to_string v) (\<lambda>s. Inr (JStr s))
      | JObj ms \<Rightarrow> and_then (js_to_string v) (\<lambda>s. Inr (JStr s))
      | _ \<Rightarrow> Inr v)"

text \<open>
  Conversion of a string to a number, \<open>StringToNumber\<close>: white space around the literal is
  dropped; the empty text is \<open>0\<close>; the literal is a binary, octal or hexadecimal integer, or a
  signed decimal with optional fraction and exponent, or a signed \<open>Infinity\<close>; any other text
  is \<open>NaN\<close>.  The value is rounded to the nearest double.
\<close>

definition is_str_ws :: "16 word \<Rightarrow> bool" where
  "is_str_ws c \<longleftrightarrow>
     c \<in> set [0x09, 0x0A, 0x0B, 0x0C, 0x0D, 0x20, 0xA0, 0x1680, 0x2028, 0x2029, 0x202F,
              0x205F, 0x3000, 0xFEFF]
     \<or> (0x2000 \<le> c \<and> c \<le> 0x200A)"

definition trim :: "jsstring \<Rightarrow> jsstring" where
  "trim s = rev (dropWhile is_str_ws (rev (dropWhile is_str_ws s)))"

definition radix_digit :: "int \<Rightarrow> 16 word \<Rightarrow> int option" where
  "radix_digit r c =
     (case hex_value c of
        Some d \<Rightarrow> if uint d < r then Some (uint d) else None
      | None \<Rightarrow> None)"

definition radix_number :: "int \<Rightarrow> jsstring \<Rightarrow> number" where
  "radix_number r ds =
     (if ds \<noteq> [] \<and> list_all (\<lambda>c. radix_digit r c \<noteq> None) ds
      then double_of_ratio False
             (foldl (\<lambda>a c. r * a + (case radix_digit r c of Some d \<Rightarrow> d | None \<Rightarrow> 0)) 0 ds) 1
      else NaN)"

definition decimal_literal :: "bool \<Rightarrow> jsstring \<Rightarrow> number" where
  "decimal_literal neg s =
     (let ip = takeWhile is_digit s;
          s2 = dropWhile is_digit s;
          has_frac = (s2 \<noteq> [] \<and> hd s2 = 0x2E);
          fp = (if has_frac then takeWhile is_digit (tl s2) else []);
          s3 = (if has_frac then dropWhile is_digit (tl s2) else s2);
          has_exp = (s3 \<noteq> [] \<and> (hd s3 = 0x65 \<or> hd s3 = 0x45));
          s4 = (if has_exp then tl s3 else s3);
          eneg = (has_exp \<and> s4 \<noteq> [] \<and> hd s4 = 0x2D);
          ep = (if has_exp \<and> s4 \<noteq> [] \<and> (hd s4 = 0x2D \<or> hd s4 = 0x2B) then tl s4 else s4);
          x = (if has_exp then int_of_digits ep else 0)
      in if s = js ''Infinity'' then (if neg then NegInfinity else PosInfinity)
         else if ip = [] \<and> fp = [] then NaN
         else if has_exp \<and> (ep = [] \<or> \<not> list_all is_digit ep) then NaN
         else if \<not> has_exp \<and> s3 \<noteq> [] then NaN
         else decimal_number neg (int_of_digits (ip @ fp))
                ((if eneg then - x else x) - int (length fp)))"

definition string_to_number :: "jsstring \<Rightarrow> number" where
  "string_to_number s =
     (let t = trim s
      in if t = [] then Num 0 0
         else if take 2 t = js ''0x'' \<or> take 2 t = js ''0X'' then radix_number 16 (drop 2 t)
         else if take 2 t = js ''0o'' \<or> take 2 t = js ''0O'' then radix_number 8 (drop 2 t)
         else if take 2 t = js ''0b'' \<or> take 2 t = js ''0B'' then radix_number 2 (drop 2 t)
         else if hd t = 0x2B then decimal_literal False (tl t)
         else if hd t = 0x2D then decimal_literal True (tl t)
         else decimal_literal False t)"

text \<open>Conversion to a number, and the comparison \<open>v > 0\<close>, which converts \<open>v\<close> to a number.\<close>

definition to_number :: "jsval \<Rightarrow> exn + number" where
  "to_number v =
     and_then (to_primitive v) (\<lambda>p.
       Inr (case p of
              JUndefined \<Rightarrow> NaN
            | JNull \<Rightarrow> Num 0 0
            | JBool b \<Rightarrow> (if b then Num 1 0 else Num 0 0)
            | JNum n \<Rightarrow> n
            | JStr s \<Rightarrow> string_to_number s
            | _ \<Rightarrow> NaN))"

definition js_gt_zero :: "jsval \<Rightarrow> exn + bool" where
  "js_gt_zero v = and_then (to_number v) (\<lambda>n. Inr (less_number 0 n))"

text \<open>
  \<open>new Date(value)\<close>: the value is converted to a primitive; a string is parsed by
  \<open>Date.parse\<close>, any other primitive is converted to a number; the result is clipped.
\<close>

definition newDate :: "host \<Rightarrow> jsval \<Rightarrow> exn + jsdate" where
  "newDate h v =
     and_then (to_primitive v) (\<lambda>p.
       (case p of
          JStr s \<Rightarrow> Inr (TimeClip (Date_parse h s))
        | _ \<Rightarrow> and_then (to_number p) (\<lambda>n. Inr (TimeClip n))))"

text \<open>
  What a value becomes when it is sent as a JSON body and read back: a property whose value
  is \<open>undefined\<close> is dropped, an array element that is \<open>undefined\<close> becomes \<open>null\<close>, a number
  that is \<open>NaN\<close> or an infinity becomes \<open>null\<close>, and the negative zero becomes \<open>0\<close>.
\<close>

definition wire_number :: "number \<Rightarrow> jsval" where
  "wire_number n =
     (case n of Num m k \<Rightarrow> JNum (Num m k) | NegZero \<Rightarrow> JNum (Num 0 0) | _ \<Rightarrow> JNull)"

fun wire :: "jsval \<Rightarrow> jsval"
  and wire_members :: "(jsstring \<times> jsval) list \<Rightarrow> (jsstring \<times> jsval) list"
  and wire_elements :: "jsval list \<Rightarrow> jsval list"
where
  "wire (JObj ms) = JObj (wire_members ms)"
| "wire (JArr xs) = JArr (wire_elements xs)"
| "wire JUndefined = JUndefined"
| "wire JNull = JNull"
| "wire (JBool b) = JBool b"
| "wire (JNum n) = wire_number n"
| "wire (JStr s) = JStr s"
| "wire_members [] = []"
| "wire_members ((k, v) # ms) =
     (if v = JUndefined then wire_members ms else (k, wire v) # wire_members ms)"
| "wire_elements [] = []"
| "wire_elements (v # xs) = (if v = JUndefined then JNull else wire v) # wire_elements xs"

text \<open>
  A string has no lone surrogate when every high surrogate is followed by a low one and
  every low surrogate follows a high one.  \<open>encodeURIComponent\<close> throws a URIError otherwise.
\<close>

fun well_formed :: "jsstring \<Rightarrow> bool" where
  "well_formed [] = True"
| "well_formed [c] = (\<not> (0xD800 \<le> c \<and> c \<le> 0xDFFF))"
| "well_formed (c # d # cs) =
     (if 0xD800 \<le> c \<and> c \<le> 0xDBFF then 0xDC00 \<le> d \<and> d \<le> 0xDFFF \<and> well_formed cs
      else if 0xDC00 \<le> c \<and> c \<le> 0xDFFF then False
      else well_formed (d # cs))"

text \<open>
  \<open>content.match(/\{[\s\S]*\}/)\<close>: the match starts at the first opening brace and, the
  quantifier being greedy, ends at the last closing brace after it; without such a pair
  the result is \<open>null\<close>.
\<close>

definition match_braces :: "jsstring \<Rightarrow> jsstring option" where
  "match_braces content =
     (let from_open = dropWhile (\<lambda>c. c \<noteq> 0x7B) content;
          span = rev (dropWhile (\<lambda>c. c \<noteq> 0x7D) (rev from_open))
      in if span = [] then None else Some span)"

section \<open>The route /api/generate-plan\<close>

text \<open>
  The environment of the process, the outcome of an outgoing \<open>fetch\<close> (a rejection, or a
  response with its \<open>ok\<close> flag and the text of its body) and the response of a route: the JSON
  value that its body denotes, and the status.
\<close>

record process_env =
  DEEPSEEK_API_KEY :: "jsstring option"
  GOOGLE_CUSTOM_SEARCH_API_KEY :: "jsstring option"
  GOOGLE_CUSTOM_SEARCH_CX :: "jsstring option"

datatype fetch_result = Rejected | Response bool jsstring

datatype http_response = NextResponse jsval nat

text \<open>\<open>!process.env.X\<close>: the variable is not set, or set to the empty string.\<close>

definition unset :: "jsstring option \<Rightarrow> bool" where
  "unset v = (case v of None \<Rightarrow> True | Some s \<Rightarrow> s = [])"

definition NextResponse_json :: "jsval \<Rightarrow> nat \<Rightarrow> http_response" where
  "NextResponse_json body status = NextResponse (wire body) status"

subsection \<open>The plan as a JSON value\<close>

fun type_name :: "activity_type \<Rightarrow> jsstring" where
  "type_name Sightseeing = js ''sightseeing''"
| "type_name Meal = js ''meal''"
| "type_name Accommodation = js ''accommodation''"
| "type_name Transportation = js ''transportation''"

definition Activity_json :: "Activity \<Rightarrow> jsval" where
  "Activity_json a =
     JObj [(js ''time'', JStr (time a)), (js ''activity'', JStr (activity a)),
           (js ''location'', JStr (location a)), (js ''description'', JStr (description a)),
           (js ''type'', JStr (type_name (type a)))]"

definition TravelPlanDay_json :: "TravelPlanDay \<Rightarrow> jsval" where
  "TravelPlanDay_json d =
     JObj [(js ''day'', JNum (Num (day d) 0)), (js ''date'', JStr (date d)),
           (js ''activities'', JArr (map Activity_json (activities d)))]"

definition TravelPlan_json :: "TravelPlan \<Rightarrow> jsval" where
  "TravelPlan_json p =
     JObj [(js ''destination'', JStr (destination p)), (js ''summary'', JStr (summary p)),
           (js ''days'', JArr (map TravelPlanDay_json (days p)))]"

text \<open>
  The call \<open>createFallbackPlan(destination, numberOfDays, startDate, travelStyle)\<close> of the
  route passes the values of the request unchecked.  Inside the template literals they are
  converted to strings, as they were at lines 21 and 25 before; the \<open>destination\<close> property
  of the result holds the value itself.
\<close>

definition call_createFallbackPlan ::
  "host \<Rightarrow> jsval \<Rightarrow> number \<Rightarrow> jsdate \<Rightarrow> jsval \<Rightarrow> exn + jsval"
where
  "call_createFallbackPlan h dest numberOfDays startDate style =
     and_then (js_to_string dest) (\<lambda>d.
     and_then (js_to_string style) (\<lambda>s.
     and_then (createFallbackPlan h d numberOfDays startDate s) (\<lambda>p.
       Inr (JObj [(js ''destination'', dest), (js ''summary'', JStr (summary p)),
                  (js ''days'', JArr (map TravelPlanDay_json (days p)))]))))"

subsection \<open>The prompt\<close>

text \<open>
  The fixed texts of the template literal at lines 18 to 55, from its opening quote to the
  first substitution, between the substitutions, and from the last one to its closing
  quote, as UTF-16 code units.
\<close>

definition prompt_text_0 :: jsstring where
  "prompt_text_0 =
     [0xA, 0x20, 0x20, 0x20, 0x20, 0x20, 0x20, 0x3042, 0x306A, 0x305F, 0x306F, 0x65C5, 0x884C,
      0x30D7, 0x30E9, 0x30F3, 0x30CA, 0x30FC, 0x3067, 0x3059, 0x3002, 0x4EE5, 0x4E0B, 0x306E,
      0x6761, 0x4EF6, 0x306B, 0x57FA, 0x3065, 0x3044, 0x3066, 0x3001, 0x8A73, 0x7D30, 0x306A,
      0x65C5, 0x884C, 0x30D7, 0x30E9, 0x30F3, 0x3092, 0x65E5, 0x672C, 0x8A9E, 0x3067, 0x4F5C,
      0x6210, 0x3057, 0x3066, 0x304F, 0x3060, 0x3055, 0x3044, 0x3002, 0xA, 0x20, 0x20, 0x20,
      0x20, 0x20, 0x20, 0xA, 0x20, 0x20, 0x20, 0x20, 0x20, 0x20, 0x76EE, 0x7684, 0x5730, 0x3A,
      0x20]"

definition prompt_text_1 :: jsstring where
  "prompt_text_1 =
     [0xA, 0x20, 0x20, 0x20, 0x20, 0x20, 0x20, 0x4E88, 0x7B97, 0x3A, 0x20]"

definition prompt_text_2 :: jsstring where
  "prompt_text_2 =
     [0x5186, 0xA, 0x20, 0x20, 0x20, 0x20, 0x20, 0x20, 0x4EBA, 0x6570, 0x3A, 0x20]"

definition prompt_text_3 :: jsstring where
  "prompt_text_3 =
     [0x4EBA, 0xA, 0x20, 0x20, 0x20, 0x20, 0x20, 0x20, 0x671F, 0x9593, 0x3A, 0x20]"

definition prompt_text_4 :: jsstring where
  "prompt_text_4 =
     [0x65E5, 0x9593, 0x20, 0x28]"

definition prompt_text_5 :: jsstring where
  "prompt_text_5 =
     [0x20, 0x304B, 0x3089, 0x20]"

definition prompt_text_6 :: jsstring where
  "prompt_text_6 =
     [0x29, 0xA, 0x20, 0x20, 0x20, 0x20, 0x20, 0x20, 0x65C5, 0x306E, 0x30B9, 0x30BF, 0x30A4,
      0x30EB, 0x3A, 0x20]"

definition prompt_text_7 :: jsstring where
  "prompt_text_7 =
     [0xA, 0x20, 0x20, 0x20, 0x20, 0x20, 0x20, 0xA, 0x20, 0x20, 0x20, 0x20, 0x20, 0x20, 0x4EE5,
      0x4E0B, 0x306E, 0x5F62, 0x5F0F, 0x3067, 0x4A, 0x53, 0x4F, 0x4E, 0x5F62, 0x5F0F, 0x3067,
      0x51FA, 0x529B, 0x3057, 0x3066, 0x304F, 0x3060, 0x3055, 0x3044, 0x3002, 0x4ED6, 0x306E,
      0x8AAC, 0x660E, 0x306F, 0x4E0D, 0x8981, 0x3067, 0x3059, 0x3002, 0xA, 0x20, 0x20, 0x20,
      0x20, 0x20, 0x20, 0xA, 0x20, 0x20, 0x20, 0x20, 0x20, 0x20, 0x7B, 0xA, 0x20, 0x20, 0x20,
      0x20, 0x20, 0x20, 0x20, 0x20, 0x22, 0x64, 0x65, 0x73, 0x74, 0x69, 0x6E, 0x61, 0x74, 0x69,
      0x6F, 0x6E, 0x22, 0x3A, 0x20, 0x22, 0x76EE, 0x7684, 0x5730, 0x540D, 0x22, 0x2C, 0xA,
      0x20, 0x20, 0x20, 0x20, 0x20, 0x20, 0x20, 0x20, 0x22, 0x73, 0x75, 0x6D, 0x6D, 0x61, 0x72,
      0x79, 0x22, 0x3A, 0x20, 0x22, 0x65C5, 0x884C, 0x306E, 0x6982, 0x8981, 0x8AAC, 0x660E,
      0xFF08, 0x32, 0x30, 0x30, 0x6587, 0x5B57, 0x7A0B, 0x5EA6, 0xFF09, 0x22, 0x2C, 0xA, 0x20,
      0x20, 0x20, 0x20, 0x20, 0x20, 0x20, 0x20, 0x22, 0x64, 0x61, 0x79, 0x73, 0x22, 0x3A, 0x20,
      0x5B, 0xA, 0x20, 0x20, 0x20, 0x20, 0x20, 0x20, 0x20, 0x20, 0x20, 0x20, 0x7B, 0xA, 0x20,
      0x20, 0x20, 0x20, 0x20, 0x20, 0x20, 0x20, 0x20, 0x20, 0x20, 0x20, 0x22, 0x64, 0x61, 0x79,
      0x22, 0x3A, 0x20, 0x31, 0x2C, 0xA, 0x20, 0x20, 0x20, 0x20, 0x20, 0x20, 0x20, 0x20, 0x20,
      0x20, 0x20, 0x20, 0x22, 0x64, 0x61, 0x74, 0x65, 0x22, 0x3A, 0x20, 0x22, 0x59, 0x59, 0x59,
      0x59, 0x2D, 0x4D, 0x4D, 0x2D, 0x44, 0x44, 0x22, 0x2C, 0xA, 0x20, 0x20, 0x20, 0x20, 0x20,
      0x20, 0x20, 0x20, 0x20, 0x20, 0x20, 0x20, 0x22, 0x61, 0x63, 0x74, 0x69, 0x76, 0x69, 0x74,
      0x69, 0x65, 0x73, 0x22, 0x3A, 0x20, 0x5B, 0xA, 0x20, 0x20, 0x20, 0x20, 0x20, 0x20, 0x20,
      0x20, 0x20, 0x20, 0x20, 0x20, 0x20, 0x20, 0x7B, 0xA, 0x20, 0x20, 0x20, 0x20, 0x20, 0x20,
      0x20, 0x20, 0x20, 0x20, 0x20, 0x20, 0x20, 0x20, 0x20, 0x20, 0x22, 0x74, 0x69, 0x6D, 0x65,
      0x22, 0x3A, 0x20, 0x22, 0x30, 0x39, 0x3A, 0x30, 0x30, 0x22, 0x2C, 0xA, 0x20, 0x20, 0x20,
      0x20, 0x20, 0x20, 0x20, 0x20, 0x20, 0x20, 0x20, 0x20, 0x20, 0x20, 0x20, 0x20, 0x22, 0x61,
      0x63, 0x74, 0x69, 0x76, 0x69, 0x74, 0x79, 0x22, 0x3A, 0x20, 0x22, 0x6D3B, 0x52D5, 0x540D,
      0x22, 0x2C, 0xA, 0x20, 0x20, 0x20, 0x20, 0x20, 0x20, 0x20, 0x20, 0x20, 0x20, 0x20, 0x20,
      0x20, 0x20, 0x20, 0x20, 0x22, 0x6C, 0x6F, 0x63, 0x61, 0x74, 0x69, 0x6F, 0x6E, 0x22, 0x3A,
      0x20, 0x22, 0x5834, 0x6240, 0x540D, 0x22, 0x2C, 0xA, 0x20, 0x20, 0x20, 0x20, 0x20, 0x20,
      0x20, 0x20, 0x20, 0x20, 0x20, 0x20, 0x20, 0x20, 0x20, 0x20, 0x22, 0x64, 0x65, 0x73, 0x63,
      0x72, 0x69, 0x70, 0x74, 0x69, 0x6F, 0x6E, 0x22, 0x3A, 0x20, 0x22, 0x7C21, 0x5358, 0x306A,
      0x8AAC, 0x660E, 0x22, 0x2C, 0xA, 0x20, 0x20, 0x20, 0x20, 0x20, 0x20, 0x20, 0x20, 0x20,
      0x20, 0x20, 0x20, 0x20, 0x20, 0x20, 0x20, 0x22, 0x74, 0x79, 0x70, 0x65, 0x22, 0x3A, 0x20,
      0x22, 0x73, 0x69, 0x67, 0x68, 0x74, 0x73, 0x65, 0x65, 0x69, 0x6E, 0x67, 0x22, 0x20,
      0x307E, 0x305F, 0x306F, 0x20, 0x22, 0x6D, 0x65, 0x61, 0x6C, 0x22, 0x20, 0x307E, 0x305F,
      0x306F, 0x20, 0x22, 0x61, 0x63, 0x63, 0x6F, 0x6D, 0x6D, 0x6F, 0x64, 0x61, 0x74, 0x69,
      0x6F, 0x6E, 0x22, 0x20, 0x307E, 0x305F, 0x306F, 0x20, 0x22, 0x74, 0x72, 0x61, 0x6E, 0x73,
      0x70, 0x6F, 0x72, 0x74, 0x61, 0x74, 0x69, 0x6F, 0x6E, 0x22, 0xA, 0x20, 0x20, 0x20, 0x20,
      0x20, 0x20, 0x20, 0x20, 0x20, 0x20, 0x20, 0x20, 0x20, 0x20, 0x7D, 0x2C, 0xA, 0x20, 0x20,
      0x20, 0x20, 0x20, 0x20, 0x20, 0x20, 0x20, 0x20, 0x20, 0x20, 0x20, 0x20, 0x2E, 0x2E, 0x2E,
      0xA, 0x20, 0x20, 0x20, 0x20, 0x20, 0x20, 0x20, 0x20, 0x20, 0x20, 0x20, 0x20, 0x5D, 0xA,
      0x20, 0x20, 0x20, 0x20, 0x20, 0x20, 0x20, 0x20, 0x20, 0x20, 0x7D, 0x2C, 0xA, 0x20, 0x20,
      0x20, 0x20, 0x20, 0x20, 0x20, 0x20, 0x20, 0x20, 0x2E, 0x2E, 0x2E, 0xA, 0x20, 0x20, 0x20,
      0x20, 0x20, 0x20, 0x20, 0x20, 0x5D, 0xA, 0x20, 0x20, 0x20, 0x20, 0x20, 0x20, 0x7D, 0xA,
      0x20, 0x20, 0x20, 0x20, 0x20, 0x20, 0xA, 0x20, 0x20, 0x20, 0x20, 0x20, 0x20, 0x5404,
      0x65E5, 0x306B, 0x5C11, 0x306A, 0x304F, 0x3068, 0x3082, 0x671D, 0x98DF, 0x3001, 0x663C,
      0x98DF, 0x3001, 0x5915, 0x98DF, 0x3001, 0x5BBF, 0x6CCA, 0x65BD, 0x8A2D, 0x3092, 0x542B,
      0x3081, 0x3066, 0x304F, 0x3060, 0x3055, 0x3044, 0x3002, 0x307E, 0x305F, 0x3001, 0x89B3,
      0x5149, 0x30B9, 0x30DD, 0x30C3, 0x30C8, 0x3084, 0x6D3B, 0x52D5, 0x3082, 0x542B, 0x3081,
      0x3066, 0x304F, 0x3060, 0x3055, 0x3044, 0x3002, 0xA, 0x20, 0x20, 0x20, 0x20, 0x20, 0x20,
      0x4E88, 0x7B97, 0x5185, 0x3067, 0x5B9F, 0x73FE, 0x53EF, 0x80FD, 0x306A, 0x73FE, 0x5B9F,
      0x7684, 0x306A, 0x30D7, 0x30E9, 0x30F3, 0x3092, 0x4F5C, 0x6210, 0x3057, 0x3066, 0x304F,
      0x3060, 0x3055, 0x3044, 0x3002, 0xA, 0x20, 0x20, 0x20, 0x20, 0x20, 0x20, 0x5730, 0x5143,
      0x306E, 0x4EBA, 0x6C17, 0x30B9, 0x30DD, 0x30C3, 0x30C8, 0x3084, 0x3001]"

definition prompt_text_8 :: jsstring where
  "prompt_text_8 =
     [0x306B, 0x5408, 0x3063, 0x305F, 0x5834, 0x6240, 0x3092, 0x512A, 0x5148, 0x3057, 0x3066,
      0x304F, 0x3060, 0x3055, 0x3044, 0x3002, 0xA, 0x20, 0x20, 0x20, 0x20, 0x20, 0x20, 0x5B9F,
      0x5728, 0x3059, 0x308B, 0x5834, 0x6240, 0x3084, 0x65BD, 0x8A2D, 0x306E, 0x540D, 0x524D,
      0x3092, 0x4F7F, 0x7528, 0x3057, 0x3066, 0x304F, 0x3060, 0x3055, 0x3044, 0x3002, 0xA,
      0x20, 0x20, 0x20, 0x20]"

subsection \<open>The handler\<close>

text \<open>
  Lines 6 to 10: the body of the request is parsed and destructured, and the two dates are
  constructed.  The result holds \<open>destination\<close>, \<open>budget\<close>, \<open>people\<close>, \<open>dateRange\<close>,
  \<open>travelStyle\<close>, \<open>startDate\<close> and \<open>endDate\<close>.
\<close>

definition read_request ::
  "host \<Rightarrow> jsstring \<Rightarrow> exn + (jsval \<times> jsval \<times> jsval \<times> jsval \<times> jsval \<times> jsdate \<times> jsdate)"
where
  "read_request h request =
     and_then (JSON_parse request) (\<lambda>body.
     and_then (js_get body (js ''destination'')) (\<lambda>dest.
     and_then (js_get body (js ''budget'')) (\<lambda>budget.
     and_then (js_get body (js ''people'')) (\<lambda>people.
     and_then (js_get body (js ''dateRange'')) (\<lambda>dateRange.
     and_then (js_get body (js ''travelStyle'')) (\<lambda>style.
     and_then (js_get dateRange (js ''from'')) (\<lambda>from_value.
     and_then (newDate h from_value) (\<lambda>startDate.
     and_then (js_get dateRange (js ''to'')) (\<lambda>to_value.
     and_then (newDate h to_value) (\<lambda>endDate.
       Inr (dest, budget, people, dateRange, style, startDate, endDate)))))))))))"

text \<open>
  Lines 18 to 55: the template literal converts each substitution to a string, in order,
  and a conversion may throw.
\<close>

definition build_prompt ::
  "jsval \<Rightarrow> jsval \<Rightarrow> jsval \<Rightarrow> number \<Rightarrow> jsval \<Rightarrow> jsval \<Rightarrow> exn + jsstring"
where
  "build_prompt dest budget people numberOfDays dateRange style =
     and_then (js_to_string dest) (\<lambda>s1.
     and_then (js_to_string budget) (\<lambda>s2.
     and_then (js_to_string people) (\<lambda>s3.
     and_then (js_get dateRange (js ''from'')) (\<lambda>from_value.
     and_then (js_to_string from_value) (\<lambda>s5.
     and_then (js_get dateRange (js ''to'')) (\<lambda>to_value.
     and_then (js_to_string to_value) (\<lambda>s6.
     and_then (js_to_string style) (\<lambda>s7.
     and_then (js_to_string style) (\<lambda>s8.
       Inr (prompt_text_0 @ s1 @ prompt_text_1 @ s2 @ prompt_text_2 @ s3 @ prompt_text_3
            @ number_to_string numberOfDays @ prompt_text_4 @ s5 @ prompt_text_5 @ s6
            @ prompt_text_6 @ s7 @ prompt_text_7 @ s8 @ prompt_text_8))))))))))"

text \<open>
  Lines 58 to 84: the request to the completion endpoint, whose outcome is \<open>upstream\<close>, and
  the path \<open>data.choices[0].message.content\<close> into its answer.
\<close>

definition completion_content :: "fetch_result \<Rightarrow> exn + jsval" where
  "completion_content upstream =
     (case upstream of
        Rejected \<Rightarrow> Inl TypeError
      | Response ok text \<Rightarrow>
          if \<not> ok then
            and_then (JSON_parse text) (\<lambda>errorData.
              Inl (Error ''DeepSeek API request failed''))
          else
            and_then (JSON_parse text) (\<lambda>data.
            and_then (js_get data (js ''choices'')) (\<lambda>choices.
            and_then (js_get choices (js ''0'')) (\<lambda>choice.
            and_then (js_get choice (js ''message'')) (\<lambda>message.
              js_get message (js ''content''))))))"

text \<open>
  Lines 88 to 95, the inner \<open>try\<close> block.  Only a string has the method \<open>match\<close>; on any
  other value the call throws a TypeError.
\<close>

definition extract_plan :: "jsval \<Rightarrow> exn + jsval" where
  "extract_plan content =
     (case content of
        JStr s \<Rightarrow>
          (case match_braces s of
             Some jsonMatch \<Rightarrow> JSON_parse jsonMatch
           | None \<Rightarrow> Inl (Error ''No JSON found in response''))
      | _ \<Rightarrow> Inl TypeError)"

text \<open>The outer \<open>try\<close> block, with the inner \<open>catch\<close> that builds the fallback plan.\<close>

definition generate_plan ::
  "host \<Rightarrow> process_env \<Rightarrow> jsstring \<Rightarrow> fetch_result \<Rightarrow> exn + jsval"
where
  "generate_plan h env request upstream =
     and_then (read_request h request)
       (\<lambda>(dest, budget, people, dateRange, style, startDate, endDate).
          let numberOfDays = plus_one (differenceInDays endDate startDate)
          in if unset (DEEPSEEK_API_KEY env)
             then Inl (Error ''DeepSeek API key is not configured'')
             else
               and_then (build_prompt dest budget people numberOfDays dateRange style) (\<lambda>prompt.
               and_then (completion_content upstream) (\<lambda>content.
                 (case extract_plan content of
                    Inr travelPlan \<Rightarrow> Inr travelPlan
                  | Inl error \<Rightarrow>
                      call_createFallbackPlan h dest numberOfDays startDate style))))"

definition error_body :: jsval where
  "error_body = JObj [(js ''error'', JStr (js ''Failed to generate travel plan''))]"

definition POST_generate_plan ::
  "host \<Rightarrow> process_env \<Rightarrow> jsstring \<Rightarrow> fetch_result \<Rightarrow> http_response"
where
  "POST_generate_plan h env request upstream =
     (case generate_plan h env request upstream of
        Inr travelPlan \<Rightarrow> NextResponse_json travelPlan 200
      | Inl error \<Rightarrow> NextResponse_json error_body 500)"

section \<open>The route /api/get-images\<close>

definition placeholder_body :: jsval where
  "placeholder_body = JObj [(js ''imageUrl'', JStr (js ''/placeholder.svg''))]"

text \<open>Lines 439 to 443: the answer for the data of the image search.\<close>

definition image_response :: "jsval \<Rightarrow> exn + http_response" where
  "image_response data =
     and_then (js_get data (js ''items'')) (\<lambda>items.
       if \<not> js_truthy items then Inr (NextResponse_json placeholder_body 200)
       else
         and_then (js_get items (js ''length'')) (\<lambda>len.
         and_then (js_gt_zero len) (\<lambda>positive.
           if positive then
             and_then (js_get items (js ''0'')) (\<lambda>first.
             and_then (js_get first (js ''link'')) (\<lambda>link.
               Inr (NextResponse_json (JObj [(js ''imageUrl'', link)]) 200)))
           else Inr (NextResponse_json placeholder_body 200))))"

text \<open>
  The \<open>try\<close> block of the handler.  \<open>upstream\<close> is the outcome of the request to the image
  search.  \<open>encodeURIComponent\<close> converts the query to a string first.
\<close>

definition search_image :: "process_env \<Rightarrow> jsstring \<Rightarrow> fetch_result \<Rightarrow> exn + http_response" where
  "search_image env request upstream =
     and_then (JSON_parse request) (\<lambda>body.
     and_then (js_get body (js ''query'')) (\<lambda>query.
       if unset (GOOGLE_CUSTOM_SEARCH_API_KEY env) \<or> unset (GOOGLE_CUSTOM_SEARCH_CX env)
       then Inr (NextResponse_json placeholder_body 200)
       else
         and_then (js_to_string query) (\<lambda>q.
           if \<not> well_formed q then Inl URIError
           else
             (case upstream of
                Rejected \<Rightarrow> Inl TypeError
              | Response ok text \<Rightarrow>
                  if \<not> ok then Inl (Error ''Google Custom Search API request failed'')
                  else and_then (JSON_parse text) image_response))))"

definition POST_get_images :: "process_env \<Rightarrow> jsstring \<Rightarrow> fetch_result \<Rightarrow> http_response" where
  "POST_get_images env request upstream =
     (case search_image env request upstream of
        Inr response \<Rightarrow> response
      | Inl error \<Rightarrow> NextResponse_json placeholder_body 200)"

section \<open>The page: images for the locations of a plan\<close>

text \<open>
  An \<open>ImageResult\<close> is the pair of \<open>location\<close> and \<open>imageUrl\<close>.  \<open>new Set\<close> keeps each value
  once, at the place of its first insertion.
\<close>

type_synonym ImageResult = "jsstring \<times> jsval"

definition flatMap :: "('a \<Rightarrow> 'b list) \<Rightarrow> 'a list \<Rightarrow> 'b list" where
  "flatMap f xs = concat (map f xs)"

definition Set_add :: "'a list \<Rightarrow> 'a \<Rightarrow> 'a list" where
  "Set_add s x = (if x \<in> set s then s else s @ [x])"

definition new_Set :: "'a list \<Rightarrow> 'a list" where
  "new_Set xs = foldl Set_add [] xs"

fun Promise_all :: "(exn + 'a) list \<Rightarrow> exn + 'a list" where
  "Promise_all [] = Inr []"
| "Promise_all (p # ps) =
     (case p of
        Inl e \<Rightarrow> Inl e
      | Inr x \<Rightarrow> (case Promise_all ps of Inl e \<Rightarrow> Inl e | Inr xs \<Rightarrow> Inr (x # xs)))"

text \<open>
  One element of \<open>imagePromises\<close>.  \<open>fetch_images q\<close> is the outcome of the request to
  \<open>/api/get-images\<close> with the query \<open>q\<close>.
\<close>

definition lookup_image :: "(jsstring \<Rightarrow> fetch_result) \<Rightarrow> jsstring \<Rightarrow> jsstring \<Rightarrow> exn + ImageResult" where
  "lookup_image fetch_images dest loc =
     (case fetch_images (loc @ js '' '' @ dest) of
        Rejected \<Rightarrow> Inl TypeError
      | Response ok text \<Rightarrow>
          if \<not> ok then Inr (loc, JStr (js ''/placeholder.svg''))
          else
            and_then (JSON_parse text) (\<lambda>imageData.
            and_then (js_get imageData (js ''imageUrl'')) (\<lambda>url.
              Inr (loc, if js_truthy url then url else JStr (js ''/placeholder.svg'')))))"

text \<open>Lines 109 to 135 of \<open>onSubmit\<close>, for a plan of the declared type \<open>TravelPlan\<close>.\<close>

definition plan_locations :: "TravelPlan \<Rightarrow> jsstring list" where
  "plan_locations planData = flatMap (\<lambda>d. map location (activities d)) (days planData)"

definition enrich_locations :: "(jsstring \<Rightarrow> fetch_result) \<Rightarrow> TravelPlan \<Rightarrow> exn + ImageResult list" where
  "enrich_locations fetch_images planData =
     (let locations = plan_locations planData;
          uniqueLocations = new_Set locations
      in Promise_all (map (lookup_image fetch_images (destination planData)) uniqueLocations))"

text \<open>
  The state \<open>images\<close> when \<open>onSubmit\<close> is over: it is reset at the start and set once all
  lookups have resolved; the \<open>catch\<close> block leaves it as it is.
\<close>

definition images_after_submit :: "(jsstring \<Rightarrow> fetch_result) \<Rightarrow> TravelPlan \<Rightarrow> ImageResult list" where
  "images_after_submit fetch_images planData =
     (case enrich_locations fetch_images planData of
        Inr imageResults \<Rightarrow> imageResults
      | Inl error \<Rightarrow> [])"

section \<open>Notions of the specification and sample inputs\<close>

text \<open>
  Following the words of the specification, ``the first balanced \<open>{...}\<close> span'': from an
  opening brace up to the closing brace that brings the nesting depth back to zero, for the
  first opening brace that has one.
\<close>

fun balanced_prefix :: "nat \<Rightarrow> jsstring \<Rightarrow> jsstring option" where
  "balanced_prefix depth [] = None"
| "balanced_prefix depth (c # cs) =
     (if c = 0x7B then map_option ((#) c) (balanced_prefix (Suc depth) cs)
      else if c = 0x7D then
        (if depth \<le> 1 then Some [c] else map_option ((#) c) (balanced_prefix (depth - 1) cs))
      else map_option ((#) c) (balanced_prefix depth cs))"

fun first_balanced_span :: "jsstring \<Rightarrow> jsstring option" where
  "first_balanced_span [] = None"
| "first_balanced_span (c # cs) =
     (if c = 0x7B then
        (case balanced_prefix 0 (c # cs) of
           Some span \<Rightarrow> Some span
         | None \<Rightarrow> first_balanced_span cs)
      else first_balanced_span cs)"

text \<open>
  Following the words of the specification, a structurally valid itinerary of \<open>N\<close> days: its
  \<open>days\<close> is a sequence of length \<open>N\<close>, the day numbers are \<open>1..N\<close> in order, and the type of
  every activity is one of the four enumerated values.
\<close>

definition int_of_json :: "jsval \<Rightarrow> int option" where
  "int_of_json v =
     (case v of
        JNum n \<Rightarrow> (case n of Num m k \<Rightarrow> if k = 0 then Some m else None | _ \<Rightarrow> None)
      | _ \<Rightarrow> None)"

definition day_number :: "jsval \<Rightarrow> int option" where
  "day_number d = (case js_get d (js ''day'') of Inr v \<Rightarrow> int_of_json v | Inl e \<Rightarrow> None)"

definition valid_activity :: "jsval \<Rightarrow> bool" where
  "valid_activity a =
     (case js_get a (js ''type'') of
        Inr (JStr t) \<Rightarrow> t \<in> set (map type_name [Sightseeing, Meal, Accommodation, Transportation])
      | _ \<Rightarrow> False)"

definition valid_day :: "jsval \<Rightarrow> bool" where
  "valid_day d =
     (case js_get d (js ''activities'') of
        Inr (JArr acts) \<Rightarrow> list_all valid_activity acts
      | _ \<Rightarrow> False)"

definition valid_itinerary :: "int \<Rightarrow> jsval \<Rightarrow> bool" where
  "valid_itinerary N v =
     (case js_get v (js ''days'') of
        Inr (JArr ds) \<Rightarrow>
          int (length ds) = N \<and> map day_number ds = map Some [1 .. N] \<and> list_all valid_day ds
      | _ \<Rightarrow> False)"

text \<open>
  An instance of \<open>Date.parse\<close> for the sample inputs: on a text of the form \<open>yyyy-MM-dd\<close> that
  names a day of the calendar, as the page sends them, it is midnight UTC of that day, as the
  language prescribes; elsewhere this instance answers \<open>NaN\<close>, whatever an engine answers
  there.  The theorems are stated for every host.
\<close>

definition days_from_civil :: "int \<Rightarrow> int \<Rightarrow> int \<Rightarrow> int" where
  "days_from_civil y0 m d =
     (let y = (if m \<le> 2 then y0 - 1 else y0);
          era = y div 400;
          yoe = y - era * 400;
          doy = (153 * (if m > 2 then m - 3 else m + 9) + 2) div 5 + d - 1;
          doe = yoe * 365 + yoe div 4 - yoe div 100 + doy
      in era * 146097 + doe - 719468)"

definition iso_Date_parse :: "jsstring \<Rightarrow> number" where
  "iso_Date_parse s =
     (if length s = 10 \<and> s ! 4 = 0x2D \<and> s ! 7 = 0x2D
         \<and> list_all is_digit (take 4 s @ take 2 (drop 5 s) @ drop 8 s)
      then
        (let y = int_of_digits (take 4 s);
             m = int_of_digits (take 2 (drop 5 s));
             d = int_of_digits (drop 8 s);
             z = days_from_civil y m d
         in if civil_from_days z = (y, m, d) then Num (z * msPerDay) 0 else NaN)
      else NaN)"

text \<open>Hosts: one in the zone of Tokyo, nine hours ahead of UTC, one in the zone of Lima,
  five hours behind, and one in the zone of Tokyo whose \<open>Date.parse\<close> reads no text.\<close>

definition tokyo :: host where
  "tokyo = \<lparr>timezone = 32400000, Date_parse = iso_Date_parse\<rparr>"

definition lima :: host where
  "lima = \<lparr>timezone = - 18000000, Date_parse = iso_Date_parse\<rparr>"

definition no_Date_parse :: "jsstring \<Rightarrow> number" where
  "no_Date_parse s = NaN"

definition tokyo_no_parse :: host where
  "tokyo_no_parse = \<lparr>timezone = 32400000, Date_parse = no_Date_parse\<rparr>"

text \<open>
  The request of the end-to-end scenarios: Kyoto, 2024-05-01 to 2024-05-03, budget 100000,
  two people, style sightseeing.
\<close>

definition kyoto :: jsstring where
  "kyoto = [0x4EAC, 0x90FD]"

definition kyoto_request :: jsstring where
  \<open>kyoto_request =
     js ''{"destination":"'' @ kyoto
     @ js ''","budget":"100000","people":"2","dateRange":{"from":"2024-05-01","to":"2024-05-03"},''
     @ js ''"travelStyle":"'' @ lit_sightseeing @ js ''"}''\<close>

definition kyoto_dateRange :: jsval where
  "kyoto_dateRange =
     JObj [(js ''from'', JStr (js ''2024-05-01'')), (js ''to'', JStr (js ''2024-05-03''))]"

definition kyoto_prompt :: jsstring where
  "kyoto_prompt =
     projr (build_prompt (JStr kyoto) (JStr (js ''100000'')) (JStr (js ''2'')) (Num 3 0)
              kyoto_dateRange (JStr lit_sightseeing))"

definition env_with_keys :: process_env where
  "env_with_keys =
     \<lparr>DEEPSEEK_API_KEY = Some (js ''k1''), GOOGLE_CUSTOM_SEARCH_API_KEY = Some (js ''k2''),
      GOOGLE_CUSTOM_SEARCH_CX = Some (js ''cx'')\<rparr>"

definition env_without_keys :: process_env where
  "env_without_keys =
     \<lparr>DEEPSEEK_API_KEY = None, GOOGLE_CUSTOM_SEARCH_API_KEY = None,
      GOOGLE_CUSTOM_SEARCH_CX = None\<rparr>"

text \<open>
  A successful answer of the completion endpoint whose \<open>content\<close> is the given text, written
  as a JSON string literal: quotes and backslashes are escaped.  The samples hold no control
  characters.
\<close>

definition escape_quotes :: "jsstring \<Rightarrow> jsstring" where
  "escape_quotes s = concat (map (\<lambda>c. if c = 0x22 \<or> c = 0x5C then [0x5C, c] else [c]) s)"

definition completion_with :: "jsstring \<Rightarrow> fetch_result" where
  \<open>completion_with content =
     Response True
       (js ''{"choices":[{"message":{"content":"'' @ escape_quotes content @ js ''"}}]}'')\<close>

definition two_day_text :: jsstring where
  \<open>two_day_text =
     js ''{"destination":"Kyoto","summary":"s","days":[''
     @ js ''{"day":1,"date":"2024-05-01","activities":[]},''
     @ js ''{"day":2,"date":"2024-05-02","activities":[]}]}''\<close>

text \<open>The plan of two days that the completion returns in a scenario, and the fallback plan
  for the request of the scenarios.\<close>

definition two_day_plan :: jsval where
  "two_day_plan =
     JObj [(js ''destination'', JStr (js ''Kyoto'')), (js ''summary'', JStr (js ''s'')),
           (js ''days'',
            JArr [JObj [(js ''day'', JNum (Num 1 0)), (js ''date'', JStr (js ''2024-05-01'')),
                        (js ''activities'', JArr [])],
                  JObj [(js ''day'', JNum (Num 2 0)), (js ''date'', JStr (js ''2024-05-02'')),
                        (js ''activities'', JArr [])]])]"

definition kyoto_plan :: TravelPlan where
  "kyoto_plan =
     projr (createFallbackPlan tokyo kyoto (Num 3 0) (Date 1714521600000) lit_sightseeing)"

definition kyoto_fallback :: jsval where
  "kyoto_fallback = TravelPlan_json kyoto_plan"

text \<open>Samples for the page: a lookup that is rejected, a lookup whose response is not a
  success, and a lookup that answers with an image.\<close>

definition offline :: "jsstring \<Rightarrow> fetch_result" where
  "offline query = Rejected"

definition unavailable :: "jsstring \<Rightarrow> fetch_result" where
  "unavailable query = Response False []"

definition image_server :: "jsstring \<Rightarrow> fetch_result" where
  \<open>image_server query = Response True (js ''{"imageUrl":"/img.png"}'')\<close>

section \<open>Auxiliary notions for the proofs\<close>

text \<open>
  A value is plain when it is not \<open>undefined\<close> and sending it as a JSON body does not change
  it.  A value is defined when \<open>undefined\<close> does not occur in it; the parser builds defined
  values.  A defined value whose numbers are all finite and not the negative zero is plain.
\<close>

definition plain :: "jsval \<Rightarrow> bool" where
  "plain v \<longleftrightarrow> wire v = v \<and> v \<noteq> JUndefined"

fun defined :: "jsval \<Rightarrow> bool"
  and defined_members :: "(jsstring \<times> jsval) list \<Rightarrow> bool"
  and defined_elements :: "jsval list \<Rightarrow> bool"
where
  "defined (JObj ms) = defined_members ms"
| "defined (JArr xs) = defined_elements xs"
| "defined JUndefined = False"
| "defined JNull = True"
| "defined (JBool b) = True"
| "defined (JNum n) = True"
| "defined (JStr s) = True"
| "defined_members [] = True"
| "defined_members ((k, v) # ms) = (defined v \<and> defined_members ms)"
| "defined_elements [] = True"
| "defined_elements (v # xs) = (defined v \<and> defined_elements xs)"

fun finite_numbers :: "jsval \<Rightarrow> bool"
  and finite_members :: "(jsstring \<times> jsval) list \<Rightarrow> bool"
  and finite_elements :: "jsval list \<Rightarrow> bool"
where
  "finite_numbers (JObj ms) = finite_members ms"
| "finite_numbers (JArr xs) = finite_elements xs"
| "finite_numbers (JNum n) = (case n of Num m k \<Rightarrow> True | _ \<Rightarrow> False)"
| "finite_numbers JUndefined = True"
| "finite_numbers JNull = True"
| "finite_numbers (JBool b) = True"
| "finite_numbers (JStr s) = True"
| "finite_members [] = True"
| "finite_members ((k, v) # ms) = (finite_numbers v \<and> finite_members ms)"
| "finite_elements [] = True"
| "finite_elements (v # xs) = (finite_numbers v \<and> finite_elements xs)"

fun defined_frame :: "frame \<Rightarrow> bool" where
  "defined_frame (InArray es) = defined_elements es"
| "defined_frame (InObject ms k) = defined_members ms"

fun defined_token :: "token \<Rightarrow> bool" where
  "defined_token (TAtom v) = defined v"
| "defined_token _ = True"

fun defined_state :: "expect \<times> frame list \<Rightarrow> bool" where
  "defined_state (Finished v, st) = (defined v \<and> list_all defined_frame st)"
| "defined_state (_, st) = list_all defined_frame st"

section \<open>Properties of the fallback generator\<close>

lemma day_of_shifted: "(t + k * msPerDay + z) div msPerDay = (t + z) div msPerDay + k"
proof -
  have "t + k * msPerDay + z = (t + z) + k * msPerDay" by simp
  then show ?thesis by (simp add: msPerDay_def)
qed

lemma fallback_loop_in_range:
  assumes "\<forall>k. i \<le> k \<and> k < n \<longrightarrow> \<bar>t + k * msPerDay\<bar> \<le> maxTime"
  shows "fallback_loop h dest (Num n 0) (Date t) style i acc =
     Inr (acc @ map (\<lambda>k. \<lparr>day = k + 1, date = format_day ((t + timezone h) div msPerDay + k),
                          activities = fallback_activities dest style\<rparr>) [i .. n - 1])"
  using assms
proof (induction h dest "Num n 0" "Date t" style i acc rule: fallback_loop.induct)
  case (1 h dest style i acc)
  show ?case
  proof (cases "i < n")
    case True
    have u: "[i .. n - 1] = i # [i + 1 .. n - 1]"
      using True by (simp add: upto_rec1)
    have c: "\<bar>t + i * msPerDay\<bar> \<le> maxTime"
      using True "1.prems" by simp
    then have f: "format h (addDays (Date t) i)
                  = Inr (format_day ((t + timezone h) div msPerDay + i))"
      by (simp add: clip_def day_of_shifted)
    have "\<forall>k. i + 1 \<le> k \<and> k < n \<longrightarrow> \<bar>t + k * msPerDay\<bar> \<le> maxTime"
      using "1.prems" by simp
    then show ?thesis
      using True f u "1.hyps" [of "format_day ((t + timezone h) div msPerDay + i)"]
      by (subst fallback_loop.simps) simp
  next
    case False
    then show ?thesis
      by (subst fallback_loop.simps) simp
  qed
qed

lemma createFallbackPlan_in_range:
  assumes "\<forall>k. 0 \<le> k \<and> k < n \<longrightarrow> \<bar>t + k * msPerDay\<bar> \<le> maxTime"
  shows "createFallbackPlan h dest (Num n 0) (Date t) style =
     Inr \<lparr>destination = dest,
          summary = dest @ lit_summary_to @ number_to_string (Num n 0) @ lit_summary_days @ style
                    @ lit_summary_middle @ dest @ lit_summary_end,
          days = map (\<lambda>k. \<lparr>day = k + 1, date = format_day ((t + timezone h) div msPerDay + k),
                            activities = fallback_activities dest style\<rparr>) [0 .. n - 1]\<rparr>"
  by (simp add: createFallbackPlan_def fallback_loop_in_range [OF assms])

lemma days_in_range:
  assumes "\<bar>t\<bar> \<le> maxTime" and "t + (n - 1) * msPerDay \<le> maxTime"
  shows "\<forall>k. 0 \<le> k \<and> k < n \<longrightarrow> \<bar>t + k * msPerDay\<bar> \<le> maxTime"
proof (intro allI impI)
  fix k :: int
  assume k: "0 \<le> k \<and> k < n"
  then have "k * msPerDay \<le> (n - 1) * msPerDay"
    by (intro mult_right_mono) (simp_all add: msPerDay_def)
  moreover have "0 \<le> k * msPerDay"
    using k by (simp add: msPerDay_def)
  ultimately show "\<bar>t + k * msPerDay\<bar> \<le> maxTime"
    using assms by simp
qed

text \<open>
  Claim C6.  For every day count \<open>n \<ge> 1\<close> and every start date for which the days of the
  plan are dates, that is, the start date and the day \<open>n - 1\<close> days after it have time values
  in the range, \<open>createFallbackPlan\<close> returns a plan with exactly \<open>n\<close> days.  The day at index
  \<open>i\<close> has the number \<open>i + 1\<close>, its date is what \<open>format\<close> prints for \<open>addDays startDate i\<close>,
  that is the local calendar day \<open>i\<close> days after the local day of the start date, and it
  carries six activities at 08:00, 10:00, 12:30, 14:00, 18:00 and 20:00 whose locations are
  the destination followed by a fixed suffix and whose descriptions are fixed texts, two of
  them prefixed with the travel style.
\<close>

theorem createFallbackPlan_days:
  assumes "1 \<le> n" and "\<bar>t\<bar> \<le> maxTime" and "t + (n - 1) * msPerDay \<le> maxTime"
  shows "\<exists>plan. createFallbackPlan h dest (Num n 0) (Date t) style = Inr plan
           \<and> int (length (days plan)) = n
           \<and> (\<forall>i < length (days plan).
                 day (days plan ! i) = int i + 1
               \<and> format h (addDays (Date t) (int i)) = Inr (date (days plan ! i))
               \<and> date (days plan ! i) = format_day ((t + timezone h) div msPerDay + int i)
               \<and> map time (activities (days plan ! i)) =
                   [js ''08:00'', js ''10:00'', js ''12:30'', js ''14:00'', js ''18:00'', js ''20:00'']
               \<and> map location (activities (days plan ! i)) =
                   map ((@) dest) [lit_hotel_restaurant, lit_popular_spot, lit_local_restaurant,
                                   lit_activity_spot, lit_rated_restaurant, lit_hotel]
               \<and> map description (activities (days plan ! i)) =
                   [lit_hotel_breakfast, style @ lit_enjoy, lit_local_food,
                    style @ lit_related_activity, lit_special_dinner, lit_comfortable_stay]
               \<and> map activity (activities (days plan ! i)) =
                   [lit_breakfast, dest @ lit_sightseeing, lit_lunch, lit_activity, lit_dinner,
                    lit_stay]
               \<and> map type (activities (days plan ! i)) =
                   [Meal, Sightseeing, Meal, Sightseeing, Meal, Accommodation])"
proof -
  have r: "\<forall>k. 0 \<le> k \<and> k < n \<longrightarrow> \<bar>t + k * msPerDay\<bar> \<le> maxTime"
    using assms(2,3) by (rule days_in_range)
  have len: "int (length [0 .. n - 1]) = n"
    using assms(1) by simp
  have f: "format h (addDays (Date t) (int i)) = Inr (format_day ((t + timezone h) div msPerDay + int i))"
    if "int i < n" for i
  proof -
    have "\<bar>t + int i * msPerDay\<bar> \<le> maxTime"
      using r that by simp
    then show ?thesis
      by (simp add: clip_def day_of_shifted)
  qed
  show ?thesis
    unfolding createFallbackPlan_in_range [OF r]
    using len f by (simp add: fallback_activities_def)
qed

theorem createFallbackPlan_days_witness:
  "(1::int) \<le> 3 \<and> \<bar>1714521600000\<bar> \<le> maxTime \<and> 1714521600000 + (3 - 1) * msPerDay \<le> maxTime
   \<and> (\<exists>plan. createFallbackPlan tokyo kyoto (Num 3 0) (Date 1714521600000) lit_sightseeing = Inr plan
         \<and> int (length (days plan)) = 3
         \<and> map date (days plan) = [js ''2024-05-01'', js ''2024-05-02'', js ''2024-05-03''])"
proof -
  have r: "\<bar>1714521600000\<bar> \<le> maxTime" "1714521600000 + (3 - 1) * msPerDay \<le> maxTime"
    by (simp_all add: maxTime_def msPerDay_def)
  have "map date (days plan) = [js ''2024-05-01'', js ''2024-05-02'', js ''2024-05-03'']"
    if "createFallbackPlan tokyo kyoto (Num 3 0) (Date 1714521600000) lit_sightseeing = Inr plan"
    for plan
  proof -
    have "map_sum id (map date \<circ> days)
            (createFallbackPlan tokyo kyoto (Num 3 0) (Date 1714521600000) lit_sightseeing)
          = Inr [js ''2024-05-01'', js ''2024-05-02'', js ''2024-05-03'']"
      by code_simp
    with that show ?thesis by simp
  qed
  then show ?thesis
    using createFallbackPlan_days [of 3 1714521600000 tokyo kyoto lit_sightseeing] r
    by auto
qed

text \<open>Past the range of time values the generator throws, whatever the host.\<close>

lemma createFallbackPlan_RangeError:
  "createFallbackPlan h dest (Num 2 0) (Date maxTime) style = Inl RangeError"
  by (simp add: createFallbackPlan_def fallback_loop.simps [of _ _ _ _ _ 0]
        fallback_loop.simps [of _ _ _ _ _ 1] clip_def maxTime_def msPerDay_def)

lemma format_same_zone: "timezone h1 = timezone h2 \<Longrightarrow> format h1 d = format h2 d"
  by (cases d) simp_all

lemma fallback_loop_same_zone:
  assumes "timezone h1 = timezone h2"
  shows "fallback_loop h1 dest n startDate style i acc = fallback_loop h2 dest n startDate style i acc"
  using assms
proof (induction h1 dest n startDate style i acc rule: fallback_loop.induct)
  case (1 h1 dest n startDate style i acc)
  have f: "format h2 (addDays startDate i) = format h1 (addDays startDate i)"
    by (rule format_same_zone [OF "1.prems", symmetric])
  show ?case
  proof (cases "less_number i n")
    case False
    then show ?thesis
      by (simp add: fallback_loop.simps [of _ _ _ _ _ i])
  next
    case True
    show ?thesis
    proof (cases "format h1 (addDays startDate i)")
      case (Inl e)
      with True f show ?thesis
        by (simp add: fallback_loop.simps [of _ _ _ _ _ i])
    next
      case (Inr formattedDate)
      with True f "1.IH" [OF True Inr "1.prems"] show ?thesis
        by (simp add: fallback_loop.simps [of _ _ _ _ _ i])
    qed
  qed
qed

text \<open>
  Claim C9, as the function has it.  Besides its four arguments \<open>createFallbackPlan\<close> reads
  one thing from the process: the local time zone, in which \<open>format\<close> prints the dates.  Two
  calls with equal destination, day count, start date and travel style, made in processes
  with the same time zone, return equal results, whatever else differs between the two
  processes.
\<close>

theorem createFallbackPlan_deterministic:
  assumes "timezone h1 = timezone h2"
  shows "createFallbackPlan h1 dest numberOfDays startDate style
         = createFallbackPlan h2 dest numberOfDays startDate style"
  by (simp add: createFallbackPlan_def fallback_loop_same_zone [OF assms])

theorem createFallbackPlan_deterministic_counterexample:
  "map_sum id (map date \<circ> days)
     (createFallbackPlan tokyo kyoto (Num 3 0) (Date 1714521600000) lit_sightseeing)
     = Inr [js ''2024-05-01'', js ''2024-05-02'', js ''2024-05-03'']
   \<and> map_sum id (map date \<circ> days)
       (createFallbackPlan lima kyoto (Num 3 0) (Date 1714521600000) lit_sightseeing)
     = Inr [js ''2024-04-30'', js ''2024-05-01'', js ''2024-05-02'']
   \<and> createFallbackPlan tokyo kyoto (Num 3 0) (Date 1714521600000) lit_sightseeing
     \<noteq> createFallbackPlan lima kyoto (Num 3 0) (Date 1714521600000) lit_sightseeing"
proof -
  have 1: "map_sum id (map date \<circ> days)
     (createFallbackPlan tokyo kyoto (Num 3 0) (Date 1714521600000) lit_sightseeing)
     = Inr [js ''2024-05-01'', js ''2024-05-02'', js ''2024-05-03'']"
    by code_simp
  have 2: "map_sum id (map date \<circ> days)
       (createFallbackPlan lima kyoto (Num 3 0) (Date 1714521600000) lit_sightseeing)
     = Inr [js ''2024-04-30'', js ''2024-05-01'', js ''2024-05-02'']"
    by code_simp
  have 3: "js ''2024-05-01'' \<noteq> js ''2024-04-30''"
    by code_simp
  show ?thesis
    using 1 2 3 by (intro conjI) auto
qed

theorem createFallbackPlan_deterministic_witness:
  "timezone tokyo = timezone tokyo_no_parse
   \<and> Date_parse tokyo (js ''2024-05-01'') \<noteq> Date_parse tokyo_no_parse (js ''2024-05-01'')
   \<and> createFallbackPlan tokyo kyoto (Num 3 0) (Date 1714521600000) lit_sightseeing
     = createFallbackPlan tokyo_no_parse kyoto (Num 3 0) (Date 1714521600000) lit_sightseeing"
proof -
  have z: "timezone tokyo = timezone tokyo_no_parse"
    by (simp add: tokyo_def tokyo_no_parse_def)
  have p: "Date_parse tokyo (js ''2024-05-01'') \<noteq> Date_parse tokyo_no_parse (js ''2024-05-01'')"
    by code_simp
  show ?thesis
    using createFallbackPlan_deterministic [OF z] z p by simp
qed

section \<open>Values read by JSON.parse\<close>

lemma and_then_simps [simp]:
  "and_then (Inl e) f = Inl e"
  "and_then (Inr x) f = f x"
  by (simp_all add: and_then_def)

lemma and_then_Inr: "and_then m f = Inr y \<longleftrightarrow> (\<exists>x. m = Inr x \<and> f x = Inr y)"
  by (cases m) simp_all

lemma defined_elements_snoc: "defined_elements (es @ [v]) \<longleftrightarrow> defined_elements es \<and> defined v"
  by (induction es) auto

lemma put_member_defined:
  "defined_members ms \<Longrightarrow> defined v \<Longrightarrow> defined_members (put_member k v ms)"
  by (induction ms) auto

lemma reduce_defined:
  "defined v \<Longrightarrow> list_all defined_frame st \<Longrightarrow> defined_state (reduce v st)"
  by (cases "(v, st)" rule: reduce.cases) (auto simp: put_member_defined defined_elements_snoc)

lemma begin_value_defined:
  "defined_token tok \<Longrightarrow> list_all defined_frame st \<Longrightarrow> begin_value tok st = Some p
   \<Longrightarrow> defined_state p"
  by (cases "(tok, st)" rule: begin_value.cases) (auto simp: reduce_defined)

lemma shift_defined:
  assumes "defined_state p" and "defined_token tok" and "shift p tok = Some p'"
  shows "defined_state p'"
proof (cases p)
  case (Pair e st)
  have st: "list_all defined_frame st"
    using assms(1) Pair by (cases e) auto
  show ?thesis
  proof (cases e)
    case Value
    then show ?thesis using assms Pair st by (auto intro: begin_value_defined)
  next
    case ValueOrClose
    then show ?thesis using assms Pair st
      by (auto split: token.splits list.splits frame.splits
               intro: begin_value_defined reduce_defined)
  next
    case KeyOrClose
    then show ?thesis using assms Pair st
      by (auto split: token.splits list.splits frame.splits intro: reduce_defined)
  next
    case Key
    then show ?thesis using assms Pair st
      by (auto split: token.splits list.splits frame.splits)
  next
    case Colon
    then show ?thesis using assms Pair st by (auto split: token.splits)
  next
    case CommaOrClose
    then show ?thesis using assms Pair st
      by (auto split: token.splits list.splits frame.splits intro: reduce_defined)
  next
    case (Finished v)
    then show ?thesis using assms Pair by simp
  qed
qed

lemma run_defined:
  "defined_state p \<Longrightarrow> list_all defined_token toks \<Longrightarrow> run p toks = Some p'
   \<Longrightarrow> defined_state p'"
  by (induction toks arbitrary: p) (auto split: option.splits dest: shift_defined)

lemma number_value_defined:
  "number_value neg ip has_frac fp has_exp eneg ep rest = Some v \<Longrightarrow> defined v"
  by (auto simp: number_value_def Let_def split: if_splits)

lemma parse_number_defined: "parse_number s = Some v \<Longrightarrow> defined v"
  unfolding parse_number_def Let_def by (rule number_value_defined)

lemma next_token_defined: "next_token c cs = Some (tok, rest) \<Longrightarrow> defined_token tok"
  unfolding next_token_def
  by (auto split: if_splits option.splits prod.splits dest: parse_number_defined)

lemma tokenize_defined: "tokenize s = Some toks \<Longrightarrow> list_all defined_token toks"
proof (induction s arbitrary: toks rule: tokenize.induct)
  case 1
  then show ?case by (simp add: tokenize.simps)
next
  case (2 c cs)
  show ?case
  proof (cases "is_ws c")
    case True
    with 2 show ?thesis by (simp add: tokenize.simps)
  next
    case False
    with "2.prems" obtain tok rest toks' where
      n: "next_token c cs = Some (tok, rest)" and
      t: "tokenize rest = Some toks'" and
      e: "toks = tok # toks'"
      by (auto simp: tokenize.simps split: option.splits)
    have "list_all defined_token toks'"
      using "2.IH"(2) [OF False n refl t] .
    with next_token_defined [OF n] e show ?thesis by simp
  qed
qed

lemma JSON_parse_defined: "JSON_parse s = Inr v \<Longrightarrow> defined v"
proof -
  assume a: "JSON_parse s = Inr v"
  then obtain toks st where t: "tokenize s = Some toks"
    and r: "run (Value, []) toks = Some (Finished v, st)"
    by (auto simp: JSON_parse_def split: option.splits prod.splits expect.splits list.splits)
  have "defined_state (Finished v, st)"
    using run_defined [OF _ tokenize_defined [OF t] r] by simp
  then show ?thesis by simp
qed

lemma defined_not_undefined: "defined v \<Longrightarrow> v \<noteq> JUndefined"
  by auto

lemma wire_defined:
  "defined v \<Longrightarrow> finite_numbers v \<Longrightarrow> wire v = v"
  "defined_members ms \<Longrightarrow> finite_members ms \<Longrightarrow> wire_members ms = ms"
  "defined_elements xs \<Longrightarrow> finite_elements xs \<Longrightarrow> wire_elements xs = xs"
  by (induction v and ms and xs rule: wire_wire_members_wire_elements.induct)
     (auto simp: wire_number_def split: number.splits)

lemma wire_elements_plain: "list_all plain xs \<Longrightarrow> wire_elements xs = xs"
  by (induction xs) (auto simp: plain_def)

lemma wire_members_plain: "list_all (\<lambda>(k, v). plain v) ms \<Longrightarrow> wire_members ms = ms"
  by (induction ms) (auto simp: plain_def)

lemma plain_JArr: "list_all plain xs \<Longrightarrow> plain (JArr xs)"
  by (simp add: plain_def wire_elements_plain)

lemma plain_JObj: "list_all (\<lambda>(k, v). plain v) ms \<Longrightarrow> plain (JObj ms)"
  by (simp add: plain_def wire_members_plain)

lemma plain_atoms [simp]: "plain JNull" "plain (JBool b)" "plain (JNum (Num m k))" "plain (JStr s)"
  by (simp_all add: plain_def wire_number_def)

section \<open>Properties of the route /api/generate-plan\<close>

lemma wire_error_body: "wire error_body = error_body"
  by (simp add: error_body_def)

lemma plain_Activity_json: "plain (Activity_json a)"
  by (simp add: Activity_json_def plain_JObj)

lemma plain_TravelPlanDay_json: "plain (TravelPlanDay_json d)"
  by (simp add: TravelPlanDay_json_def plain_JObj plain_JArr list_all_iff plain_Activity_json)

lemma plain_days: "plain (JArr (map TravelPlanDay_json ds))"
  by (simp add: plain_JArr list_all_iff plain_TravelPlanDay_json)

lemma wire_TravelPlan_json: "wire (TravelPlan_json p) = TravelPlan_json p"
  using plain_days [of "days p"] by (simp add: TravelPlan_json_def plain_def)

text \<open>The dates that the route constructs are in the range of time values.\<close>

lemma TimeClip_range: "TimeClip n = Date t \<Longrightarrow> \<bar>t\<bar> \<le> maxTime"
  by (cases n) (auto simp: clip_def maxTime_def split: if_splits)

lemma newDate_range:
  assumes "newDate h v = Inr (Date t)"
  shows "\<bar>t\<bar> \<le> maxTime"
proof -
  obtain p where p: "(case p of
          JStr s \<Rightarrow> Inr (TimeClip (Date_parse h s))
        | _ \<Rightarrow> and_then (to_number p) (\<lambda>n. Inr (TimeClip n))) = Inr (Date t)"
    using assms by (auto simp: newDate_def and_then_Inr)
  then show ?thesis
    by (cases p) (auto simp: and_then_Inr dest: TimeClip_range)
qed

lemma read_request_range:
  assumes "read_request h request = Inr (dest, budget, people, dateRange, style, startDate, endDate)"
  shows "(\<forall>t. startDate = Date t \<longrightarrow> \<bar>t\<bar> \<le> maxTime) \<and> (\<forall>t. endDate = Date t \<longrightarrow> \<bar>t\<bar> \<le> maxTime)"
  using assms by (auto simp: read_request_def and_then_Inr dest: newDate_range)

text \<open>The number of days that the route computes from such dates is an integer.\<close>

lemma plus_one_int:
  "\<bar>m + 1\<bar> \<le> 9007199254740992 \<Longrightarrow> plus_one (Num m 0) = Num (m + 1) 0"
  by (auto simp: double_of_ratio_def signed_zero_def)

lemma trunc_div_nonneg: "0 \<le> a \<Longrightarrow> 0 < b \<Longrightarrow> trunc_div a b = a div b"
  by (cases "a = 0") (simp_all add: trunc_div_def)

lemma trunc_div_bound:
  assumes "\<bar>a\<bar> \<le> 2 * maxTime"
  shows "\<bar>trunc_div a msPerDay\<bar> \<le> 200000000"
proof -
  have "\<bar>a\<bar> div msPerDay \<le> (2 * maxTime) div msPerDay"
    using assms by (intro zdiv_mono1) (simp_all add: msPerDay_def)
  moreover have "0 \<le> \<bar>a\<bar> div msPerDay"
    by (simp add: msPerDay_def pos_imp_zdiv_nonneg_iff)
  ultimately show ?thesis
    by (simp add: trunc_div_def abs_mult msPerDay_def maxTime_def)
qed

lemma numberOfDays_in_route:
  assumes "\<bar>s\<bar> \<le> maxTime" and "\<bar>e\<bar> \<le> maxTime"
  shows "plus_one (differenceInDays (Date e) (Date s)) = Num (trunc_div (e - s) msPerDay + 1) 0"
proof -
  have "\<bar>e - s\<bar> \<le> 2 * maxTime"
    using assms by simp
  then have "\<bar>trunc_div (e - s) msPerDay\<bar> \<le> 200000000"
    by (rule trunc_div_bound)
  then have "\<bar>trunc_div (e - s) msPerDay + 1\<bar> \<le> 9007199254740992"
    by simp
  then have "plus_one (Num (trunc_div (e - s) msPerDay) 0)
             = Num (trunc_div (e - s) msPerDay + 1) 0"
    by (rule plus_one_int)
  then show ?thesis
    by (simp only: differenceInDays.simps)
qed

lemma createFallbackPlan_NaN:
  "createFallbackPlan h dest NaN startDate style =
     Inr \<lparr>destination = dest,
          summary = dest @ lit_summary_to @ js ''NaN'' @ lit_summary_days @ style
                    @ lit_summary_middle @ dest @ lit_summary_end,
          days = []\<rparr>"
  by (simp add: createFallbackPlan_def fallback_loop.simps)

lemma createFallbackPlan_days_in_range:
  assumes "\<forall>k. 0 \<le> k \<and> k < n \<longrightarrow> \<bar>t + k * msPerDay\<bar> \<le> maxTime"
      and "createFallbackPlan h dest (Num n 0) (Date t) style = Inr p"
  shows "days p = map (\<lambda>k. \<lparr>day = k + 1, date = format_day ((t + timezone h) div msPerDay + k),
                              activities = fallback_activities dest style\<rparr>) [0 .. n - 1]"
proof -
  let ?ds = "map (\<lambda>k. \<lparr>day = k + 1, date = format_day ((t + timezone h) div msPerDay + k),
                         activities = fallback_activities dest style\<rparr>) [0 .. n - 1]"
  let ?plan = "\<lparr>destination = dest,
          summary = dest @ lit_summary_to @ number_to_string (Num n 0) @ lit_summary_days @ style
                    @ lit_summary_middle @ dest @ lit_summary_end,
          days = ?ds\<rparr>"
  have "createFallbackPlan h dest (Num n 0) (Date t) style = Inr ?plan"
    by (rule createFallbackPlan_in_range [OF assms(1)])
  then have "Inr p = (Inr ?plan :: exn + TravelPlan)"
    by (rule trans [OF assms(2) [symmetric]])
  then have "p = ?plan"
    by (simp only: sum.inject)
  then have "days p = days ?plan"
    by (rule arg_cong)
  then show ?thesis
    by (simp only: TravelPlan.select_convs)
qed

lemma createFallbackPlan_destination:
  "createFallbackPlan h dest n startDate style = Inr p \<Longrightarrow> destination p = dest"
  by (auto simp: createFallbackPlan_def split: sum.splits)

text \<open>
  In the route the fallback generator does not throw: the days that it formats lie between
  the start and the end date.
\<close>

lemma route_days_in_range:
  assumes s: "\<bar>s\<bar> \<le> maxTime" and e': "\<bar>e\<bar> \<le> maxTime"
  shows "\<forall>k. 0 \<le> k \<and> k < trunc_div (e - s) msPerDay + 1 \<longrightarrow> \<bar>s + k * msPerDay\<bar> \<le> maxTime"
proof (intro allI impI)
  fix k :: int
  assume k: "0 \<le> k \<and> k < trunc_div (e - s) msPerDay + 1"
  show "\<bar>s + k * msPerDay\<bar> \<le> maxTime"
  proof (cases "s \<le> e")
    case True
    then have "k \<le> (e - s) div msPerDay"
      using k by (simp add: trunc_div_nonneg msPerDay_def)
    then have "k * msPerDay \<le> (e - s) div msPerDay * msPerDay"
      by (intro mult_right_mono) (simp_all add: msPerDay_def)
    also have "\<dots> \<le> e - s"
      by (simp add: msPerDay_def)
    finally have "s + k * msPerDay \<le> e"
      by simp
    moreover have "0 \<le> k * msPerDay"
      using k by (simp add: msPerDay_def)
    ultimately show ?thesis
      using s e' by simp
  next
    case False
    then have "trunc_div (e - s) msPerDay \<le> 0"
      by (simp add: trunc_div_def msPerDay_def sgn_if pos_imp_zdiv_nonneg_iff)
    with k have "k = 0" by simp
    with s show ?thesis by simp
  qed
qed

lemma createFallbackPlan_in_route:
  assumes "\<forall>t. startDate = Date t \<longrightarrow> \<bar>t\<bar> \<le> maxTime"
      and "\<forall>t. endDate = Date t \<longrightarrow> \<bar>t\<bar> \<le> maxTime"
  shows "\<exists>p. createFallbackPlan h dest (plus_one (differenceInDays endDate startDate))
               startDate style = Inr p"
proof (cases startDate)
  case InvalidDate
  then show ?thesis by (cases endDate) (simp_all add: createFallbackPlan_NaN)
next
  case (Date s)
  show ?thesis
  proof (cases endDate)
    case InvalidDate
    with Date show ?thesis by (simp add: createFallbackPlan_NaN)
  next
    case e: (Date e)
    have s: "\<bar>s\<bar> \<le> maxTime" and e': "\<bar>e\<bar> \<le> maxTime"
      using assms Date e by simp_all
    let ?n = "trunc_div (e - s) msPerDay + 1"
    have n: "plus_one (differenceInDays endDate startDate) = Num ?n 0"
      using numberOfDays_in_route [OF s e'] Date e by simp
    obtain p where "createFallbackPlan h dest (Num ?n 0) (Date s) style = Inr p"
      using createFallbackPlan_in_range [OF route_days_in_range [OF s e']] by blast
    then show ?thesis
      using n Date by simp
  qed
qed

lemma build_prompt_converts:
  assumes "build_prompt dest budget people numberOfDays dateRange style = Inr prompt"
  shows "\<exists>d s. js_to_string dest = Inr d \<and> js_to_string style = Inr s"
  using assms by (auto simp: build_prompt_def and_then_Inr)

lemma generate_plan_unfold:
  assumes "read_request h request = Inr (dest, budget, people, dateRange, style, startDate, endDate)"
      and "\<not> unset (DEEPSEEK_API_KEY env)"
      and "build_prompt dest budget people (plus_one (differenceInDays endDate startDate))
             dateRange style = Inr prompt"
      and "completion_content upstream = Inr content"
  shows "generate_plan h env request upstream =
           (case extract_plan content of
              Inr travelPlan \<Rightarrow> Inr travelPlan
            | Inl error \<Rightarrow>
                call_createFallbackPlan h dest (plus_one (differenceInDays endDate startDate))
                  startDate style)"
  using assms by (simp add: generate_plan_def)

text \<open>
  When the span between the first opening and the last closing brace parses, the parsed
  value is sent as the body of the response, with status 200.
\<close>

lemma POST_generate_plan_parsed:
  assumes "read_request h request = Inr (dest, budget, people, dateRange, style, startDate, endDate)"
      and "\<not> unset (DEEPSEEK_API_KEY env)"
      and "build_prompt dest budget people (plus_one (differenceInDays endDate startDate))
             dateRange style = Inr prompt"
      and "completion_content upstream = Inr content"
      and "extract_plan content = Inr plan"
  shows "POST_generate_plan h env request upstream = NextResponse (wire plan) 200"
  using assms(5)
  by (simp add: POST_generate_plan_def generate_plan_unfold [OF assms(1-4)] NextResponse_json_def)

lemma extract_plan_defined: "extract_plan content = Inr plan \<Longrightarrow> defined plan"
  by (auto simp: extract_plan_def split: jsval.splits option.splits dest: JSON_parse_defined)

text \<open>Otherwise the fallback plan for the values of the request is sent, with status 200.\<close>

lemma POST_generate_plan_fallback:
  assumes "read_request h request = Inr (dest, budget, people, dateRange, style, startDate, endDate)"
      and "\<not> unset (DEEPSEEK_API_KEY env)"
      and "build_prompt dest budget people (plus_one (differenceInDays endDate startDate))
             dateRange style = Inr prompt"
      and "completion_content upstream = Inr content"
      and "extract_plan content = Inl err"
  shows "\<exists>d s p.
           js_to_string dest = Inr d \<and> js_to_string style = Inr s
         \<and> createFallbackPlan h d (plus_one (differenceInDays endDate startDate)) startDate s = Inr p
         \<and> POST_generate_plan h env request upstream
             = NextResponse_json
                 (JObj [(js ''destination'', dest), (js ''summary'', JStr (summary p)),
                        (js ''days'', JArr (map TravelPlanDay_json (days p)))]) 200"
proof -
  obtain d s where d: "js_to_string dest = Inr d" and s: "js_to_string style = Inr s"
    using build_prompt_converts [OF assms(3)] by blast
  obtain p where p:
    "createFallbackPlan h d (plus_one (differenceInDays endDate startDate)) startDate s = Inr p"
    using createFallbackPlan_in_route read_request_range [OF assms(1)] by blast
  have "generate_plan h env request upstream
        = Inr (JObj [(js ''destination'', dest), (js ''summary'', JStr (summary p)),
                     (js ''days'', JArr (map TravelPlanDay_json (days p)))])"
    using assms(5) d s p
    by (simp add: generate_plan_unfold [OF assms(1-4)] call_createFallbackPlan_def)
  then show ?thesis
    using d s p by (simp add: POST_generate_plan_def)
qed

text \<open>
  Claim C5.  If the handler reaches the completion request, that is, the request is read,
  the key is set and the prompt is built, the completion endpoint answers successfully with
  a text \<open>content\<close>, and the text has no span from an opening to a closing brace, or that span
  does not parse, then the response has status 200 and its body is the fallback plan for
  the values of the request: the plan that \<open>createFallbackPlan\<close> builds for the destination,
  the number of days, the start date and the travel style.
\<close>

theorem POST_generate_plan_no_json:
  assumes "read_request h request
             = Inr (JStr d, budget, people, dateRange, JStr st, startDate, endDate)"
      and "\<not> unset (DEEPSEEK_API_KEY env)"
      and "build_prompt (JStr d) budget people (plus_one (differenceInDays endDate startDate))
             dateRange (JStr st) = Inr prompt"
      and "completion_content upstream = Inr (JStr text)"
      and "match_braces text = None
           \<or> (\<exists>span err. match_braces text = Some span \<and> JSON_parse span = Inl err)"
  shows "\<exists>plan.
           createFallbackPlan h d (plus_one (differenceInDays endDate startDate)) startDate st
             = Inr plan
         \<and> POST_generate_plan h env request upstream
             = NextResponse (TravelPlan_json plan) 200"
proof -
  obtain err where e: "extract_plan (JStr text) = Inl err"
    using assms(5) by (auto simp: extract_plan_def)
  obtain p where p:
    "createFallbackPlan h d (plus_one (differenceInDays endDate startDate)) startDate st = Inr p"
    and r: "POST_generate_plan h env request upstream
             = NextResponse_json
                 (JObj [(js ''destination'', JStr d), (js ''summary'', JStr (summary p)),
                        (js ''days'', JArr (map TravelPlanDay_json (days p)))]) 200"
    using POST_generate_plan_fallback [OF assms(1-4) e] by auto
  have "JObj [(js ''destination'', JStr d), (js ''summary'', JStr (summary p)),
              (js ''days'', JArr (map TravelPlanDay_json (days p)))] = TravelPlan_json p"
    using createFallbackPlan_destination [OF p] by (simp add: TravelPlan_json_def)
  with p r show ?thesis
    by (auto simp: NextResponse_json_def wire_TravelPlan_json)
qed

text \<open>
  Claim C10.  If the body of the request is not parseable JSON, or is parsed to a value
  without the property \<open>dateRange\<close>, the response is the error object with status 500.
\<close>

theorem POST_generate_plan_bad_request:
  assumes "(\<exists>err. JSON_parse request = Inl err)
           \<or> (\<exists>body. JSON_parse request = Inr body
                     \<and> js_get body (js ''dateRange'') = Inr JUndefined)"
  shows "POST_generate_plan h env request upstream = NextResponse error_body 500"
proof -
  have "\<exists>err. read_request h request = Inl err"
    using assms
  proof
    assume "\<exists>err. JSON_parse request = Inl err"
    then show ?thesis by (auto simp: read_request_def)
  next
    assume "\<exists>body. JSON_parse request = Inr body \<and> js_get body (js ''dateRange'') = Inr JUndefined"
    then obtain body where b: "JSON_parse request = Inr body"
      and d: "js_get body (js ''dateRange'') = Inr JUndefined" by blast
    show ?thesis
      using b d by (cases body) (simp_all add: read_request_def)
  qed
  then show ?thesis
    by (auto simp: POST_generate_plan_def generate_plan_def NextResponse_json_def wire_error_body)
qed

lemma completion_content_failure:
  assumes "upstream = Rejected \<or> (\<exists>text. upstream = Response False text)"
  shows "\<exists>err. completion_content upstream = Inl err"
  using assms
  by (auto simp: completion_content_def and_then_def split: sum.splits)

text \<open>
  Claim C2, as the route has it.  If the key of the completion endpoint is not set, or the
  request to it is rejected, or its response is not a success, the response of the route is
  the error object with status 500, for every request.
\<close>

theorem POST_generate_plan_upstream_failure:
  assumes "unset (DEEPSEEK_API_KEY env) \<or> upstream = Rejected
           \<or> (\<exists>text. upstream = Response False text)"
  shows "POST_generate_plan h env request upstream = NextResponse error_body 500"
proof -
  have "\<exists>e. generate_plan h env request upstream = Inl e"
  proof (cases "read_request h request")
    case (Inl err)
    then show ?thesis by (simp add: generate_plan_def)
  next
    case (Inr r)
    obtain dest budget people dateRange style startDate endDate
      where r: "r = (dest, budget, people, dateRange, style, startDate, endDate)"
      by (cases r)
    show ?thesis
    proof (cases "unset (DEEPSEEK_API_KEY env)")
      case True
      with Inr r show ?thesis by (simp add: generate_plan_def)
    next
      case False
      with assms obtain err where c: "completion_content upstream = Inl err"
        using completion_content_failure by blast
      show ?thesis
      proof (cases "build_prompt dest budget people
                      (plus_one (differenceInDays endDate startDate)) dateRange style")
        case (Inl e)
        with Inr r False show ?thesis by (simp add: generate_plan_def)
      next
        case p: (Inr prompt)
        with Inr r False c show ?thesis by (simp add: generate_plan_def)
      qed
    qed
  qed
  then show ?thesis
    by (auto simp: POST_generate_plan_def NextResponse_json_def wire_error_body)
qed

lemma map_succ_upto: "map (\<lambda>k. k + 1) [0 .. n - 1] = [1 .. n]"
  by (rule nth_equalityI) auto

lemma valid_activity_json: "valid_activity (Activity_json a)"
  by (cases "type a") (simp_all add: valid_activity_def Activity_json_def property_def js_def)

lemma valid_day_json: "valid_day (TravelPlanDay_json d)"
  by (simp add: valid_day_def TravelPlanDay_json_def property_def js_def list_all_iff
                valid_activity_json)

lemma day_number_json: "day_number (TravelPlanDay_json d) = Some (day d)"
  by (simp add: day_number_def TravelPlanDay_json_def property_def js_def int_of_json_def)

lemma valid_itinerary_days:
  assumes "js_get body (js ''days'') = Inr (JArr (map TravelPlanDay_json ds))"
      and "map day ds = [1 .. n]"
      and "0 \<le> n"
  shows "valid_itinerary n body"
proof -
  have "int (length ds) = n"
  proof -
    have "length ds = length [1 .. n]"
      using assms(2) by (metis length_map)
    then show ?thesis
      using assms(3) by simp
  qed
  moreover have "map day_number (map TravelPlanDay_json ds) = map Some [1 .. n]"
  proof -
    have "map day_number (map TravelPlanDay_json ds) = map Some (map day ds)"
      by (simp add: day_number_json comp_def)
    then show ?thesis
      by (simp only: assms(2))
  qed
  ultimately show ?thesis
    using assms(1) by (simp add: valid_itinerary_def list_all_iff valid_day_json)
qed

lemma fallback_days_wire:
  "js_get (wire (JObj [(js ''destination'', dest), (js ''summary'', JStr s),
                       (js ''days'', JArr (map TravelPlanDay_json ds))])) (js ''days'')
   = Inr (JArr (map TravelPlanDay_json ds))"
  using plain_days [of ds]
  by (simp add: property_def js_def plain_def)

text \<open>
  Claim C1, as the route has it.  For every request with start \<open>\<le>\<close> end for which the handler
  reaches the completion request, when the completion endpoint has answered with a
  \<open>content\<close>, the response has status 200.  When the span between the first opening and the
  last closing brace of the content parses, the body is the parsed value as it is sent,
  whatever its shape; sending changes it only where a number is not finite or is the
  negative zero.  Otherwise the body is the fallback plan, which is structurally valid for
  \<open>differenceInDays(end, start) + 1\<close> days.
\<close>

theorem POST_generate_plan_shape:
  assumes "read_request h request = Inr (dest, budget, people, dateRange, style, Date s, Date e)"
      and "s \<le> e"
      and "\<not> unset (DEEPSEEK_API_KEY env)"
      and "build_prompt dest budget people (plus_one (differenceInDays (Date e) (Date s)))
             dateRange style = Inr prompt"
      and "completion_content upstream = Inr content"
  shows "\<exists>body. POST_generate_plan h env request upstream = NextResponse body 200
           \<and> (case extract_plan content of
                 Inr plan \<Rightarrow> body = wire plan \<and> (finite_numbers plan \<longrightarrow> body = plan)
               | Inl err \<Rightarrow>
                   plus_one (differenceInDays (Date e) (Date s)) = Num ((e - s) div msPerDay + 1) 0
                   \<and> valid_itinerary ((e - s) div msPerDay + 1) body)"
proof (cases "extract_plan content")
  case (Inr plan)
  have "finite_numbers plan \<longrightarrow> wire plan = plan"
    using extract_plan_defined [OF Inr] by (simp add: wire_defined)
  then show ?thesis
    using POST_generate_plan_parsed [OF assms(1,3,4,5) Inr] Inr by simp
next
  case (Inl err)
  let ?n = "(e - s) div msPerDay + 1"
  have s: "\<bar>s\<bar> \<le> maxTime" and e: "\<bar>e\<bar> \<le> maxTime"
    using read_request_range [OF assms(1)] by simp_all
  have t: "trunc_div (e - s) msPerDay = (e - s) div msPerDay"
    using assms(2) by (simp add: trunc_div_nonneg msPerDay_def)
  have n: "plus_one (differenceInDays (Date e) (Date s)) = Num ?n 0"
    using numberOfDays_in_route [OF s e] t by simp
  have n0: "0 \<le> ?n"
    using assms(2) by (simp add: msPerDay_def pos_imp_zdiv_nonneg_iff)
  obtain d st p where
    p: "createFallbackPlan h d (Num ?n 0) (Date s) st = Inr p"
    and r: "POST_generate_plan h env request upstream
             = NextResponse_json
                 (JObj [(js ''destination'', dest), (js ''summary'', JStr (summary p)),
                        (js ''days'', JArr (map TravelPlanDay_json (days p)))]) 200"
    using POST_generate_plan_fallback [OF assms(1,3,4,5) Inl] n by auto
  have "\<forall>k. 0 \<le> k \<and> k < ?n \<longrightarrow> \<bar>s + k * msPerDay\<bar> \<le> maxTime"
    using route_days_in_range [OF s e] t by simp
  then have "days p = map (\<lambda>k. \<lparr>day = k + 1, date = format_day ((s + timezone h) div msPerDay + k),
                                 activities = fallback_activities d st\<rparr>) [0 .. ?n - 1]"
    using p by (rule createFallbackPlan_days_in_range)
  then have "map day (days p) = [1 .. ?n]"
    using map_succ_upto [of ?n] by (simp add: comp_def)
  then have "valid_itinerary ?n
               (wire (JObj [(js ''destination'', dest), (js ''summary'', JStr (summary p)),
                            (js ''days'', JArr (map TravelPlanDay_json (days p)))]))"
    using n0 by (rule valid_itinerary_days [OF fallback_days_wire])
  then show ?thesis
    using Inl r n by (simp add: NextResponse_json_def)
qed

text \<open>
  Claim C3, as the route has it.  For every request for which the handler reaches the
  completion request, if the content of the completion holds a span that parses to a value
  whose \<open>days\<close> has a length different from the number of days of the request, the response
  is that value as it is sent, with status 200, and not the fallback plan; sending changes
  the value only where a number is not finite or is the negative zero.
\<close>

theorem POST_generate_plan_day_count:
  assumes "read_request h request = Inr (dest, budget, people, dateRange, style, startDate, endDate)"
      and "\<not> unset (DEEPSEEK_API_KEY env)"
      and "build_prompt dest budget people (plus_one (differenceInDays endDate startDate))
             dateRange style = Inr prompt"
      and "completion_content upstream = Inr (JStr text)"
      and "match_braces text = Some span"
      and "JSON_parse span = Inr plan"
      and "js_get plan (js ''days'') = Inr (JArr ds)"
      and "plus_one (differenceInDays endDate startDate) \<noteq> Num (int (length ds)) 0"
  shows "POST_generate_plan h env request upstream = NextResponse (wire plan) 200
         \<and> (finite_numbers plan \<longrightarrow> wire plan = plan)"
proof -
  have "extract_plan (JStr text) = Inr plan"
    using assms(5,6) by (simp add: extract_plan_def)
  then have "POST_generate_plan h env request upstream = NextResponse (wire plan) 200"
    by (rule POST_generate_plan_parsed [OF assms(1-4)])
  moreover have "finite_numbers plan \<longrightarrow> wire plan = plan"
    using JSON_parse_defined [OF assms(6)] by (simp add: wire_defined)
  ultimately show ?thesis by simp
qed

lemma match_braces_span:
  assumes "0x7B \<notin> set before" and "0x7D \<notin> set after"
  shows "match_braces (before @ [0x7B] @ inner @ [0x7D] @ after) = Some ([0x7B] @ inner @ [0x7D])"
proof -
  have 1: "dropWhile (\<lambda>c. c \<noteq> 0x7B) (before @ [0x7B] @ inner @ [0x7D] @ after)
           = [0x7B] @ inner @ [0x7D] @ after"
    using assms(1) by (simp add: dropWhile_append)
  have 2: "dropWhile (\<lambda>c. c \<noteq> 0x7D) (rev ([0x7B] @ inner @ [0x7D] @ after))
           = 0x7D # rev inner @ [0x7B]"
    using assms(2) by (simp add: dropWhile_append)
  show ?thesis
    unfolding match_braces_def Let_def 1 2 by simp
qed

text \<open>
  Claim C4, as the route has it.  The span taken from the content runs from its first
  opening brace to its last closing brace.  When the handler reaches the completion request
  and the content is some text without an opening brace, then one JSON object, then some
  text without a closing brace, and the object parses, the response is the parsed object
  as it is sent, with status 200; sending changes the object only where a number is not
  finite or is the negative zero.
\<close>

theorem POST_generate_plan_embedded_object:
  assumes "read_request h request = Inr (dest, budget, people, dateRange, style, startDate, endDate)"
      and "\<not> unset (DEEPSEEK_API_KEY env)"
      and "build_prompt dest budget people (plus_one (differenceInDays endDate startDate))
             dateRange style = Inr prompt"
      and "completion_content upstream
             = Inr (JStr (before @ [0x7B] @ inner @ [0x7D] @ after))"
      and "0x7B \<notin> set before" and "0x7D \<notin> set after"
      and "JSON_parse ([0x7B] @ inner @ [0x7D]) = Inr plan"
  shows "match_braces (before @ [0x7B] @ inner @ [0x7D] @ after) = Some ([0x7B] @ inner @ [0x7D])
         \<and> POST_generate_plan h env request upstream = NextResponse (wire plan) 200
         \<and> (finite_numbers plan \<longrightarrow> wire plan = plan)"
proof -
  have m: "match_braces (before @ [0x7B] @ inner @ [0x7D] @ after) = Some ([0x7B] @ inner @ [0x7D])"
    using assms(5,6) by (rule match_braces_span)
  then have "extract_plan (JStr (before @ [0x7B] @ inner @ [0x7D] @ after)) = Inr plan"
    using assms(7) by (simp add: extract_plan_def)
  then have "POST_generate_plan h env request upstream = NextResponse (wire plan) 200"
    by (rule POST_generate_plan_parsed [OF assms(1-4)])
  moreover have "finite_numbers plan \<longrightarrow> wire plan = plan"
    using JSON_parse_defined [OF assms(7)] by (simp add: wire_defined)
  ultimately show ?thesis
    using m by simp
qed

section \<open>The end-to-end scenarios\<close>

lemma kyoto_request_read:
  "read_request tokyo kyoto_request
   = Inr (JStr kyoto, JStr (js ''100000''), JStr (js ''2''), kyoto_dateRange,
          JStr lit_sightseeing, Date 1714521600000, Date 1714694400000)"
  by code_simp

lemma kyoto_key: "\<not> unset (DEEPSEEK_API_KEY env_with_keys)"
  by code_simp

lemma kyoto_days: "plus_one (differenceInDays (Date 1714694400000) (Date 1714521600000)) = Num 3 0"
  by code_simp

lemma kyoto_prompt_built:
  "build_prompt (JStr kyoto) (JStr (js ''100000'')) (JStr (js ''2''))
     (plus_one (differenceInDays (Date 1714694400000) (Date 1714521600000)))
     kyoto_dateRange (JStr lit_sightseeing) = Inr kyoto_prompt"
proof -
  have "js_get kyoto_dateRange (js ''from'') = Inr (JStr (js ''2024-05-01''))"
       "js_get kyoto_dateRange (js ''to'') = Inr (JStr (js ''2024-05-03''))"
    by code_simp+
  then show ?thesis
    unfolding kyoto_days kyoto_prompt_def by (simp add: build_prompt_def)
qed

lemma kyoto_createFallbackPlan:
  "createFallbackPlan tokyo kyoto (Num 3 0) (Date 1714521600000) lit_sightseeing = Inr kyoto_plan"
proof -
  have "\<forall>k. 0 \<le> k \<and> k < 3 \<longrightarrow> \<bar>1714521600000 + k * msPerDay\<bar> \<le> maxTime"
    by (rule days_in_range) (simp_all add: maxTime_def msPerDay_def)
  then show ?thesis
    unfolding kyoto_plan_def by (simp add: createFallbackPlan_in_range)
qed

lemma kyoto_fallback_valid: "valid_itinerary 3 kyoto_fallback"
proof -
  have "\<forall>k. 0 \<le> k \<and> k < 3 \<longrightarrow> \<bar>1714521600000 + k * msPerDay\<bar> \<le> maxTime"
    by (rule days_in_range) (simp_all add: maxTime_def msPerDay_def)
  then have "days kyoto_plan
      = map (\<lambda>k. \<lparr>day = k + 1, date = format_day ((1714521600000 + timezone tokyo) div msPerDay + k),
                   activities = fallback_activities kyoto lit_sightseeing\<rparr>) [0 .. 3 - 1]"
    using kyoto_createFallbackPlan by (rule createFallbackPlan_days_in_range)
  then have "map day (days kyoto_plan) = [1 .. 3]"
    using map_succ_upto [of 3] by (simp add: comp_def)
  moreover have "js_get kyoto_fallback (js ''days'') = Inr (JArr (map TravelPlanDay_json (days kyoto_plan)))"
    by (simp add: kyoto_fallback_def TravelPlan_json_def property_def js_def)
  ultimately show ?thesis
    by (intro valid_itinerary_days) simp_all
qed

text \<open>The response to the request of the scenarios when the route falls back.\<close>

lemma kyoto_falls_back:
  assumes "completion_content upstream = Inr content"
      and "extract_plan content = Inl err"
  shows "POST_generate_plan tokyo env_with_keys kyoto_request upstream
         = NextResponse kyoto_fallback 200"
proof -
  obtain p where
    p: "createFallbackPlan tokyo kyoto (Num 3 0) (Date 1714521600000) lit_sightseeing = Inr p"
    and r: "POST_generate_plan tokyo env_with_keys kyoto_request upstream
             = NextResponse_json
                 (JObj [(js ''destination'', JStr kyoto), (js ''summary'', JStr (summary p)),
                        (js ''days'', JArr (map TravelPlanDay_json (days p)))]) 200"
    using POST_generate_plan_fallback [OF kyoto_request_read kyoto_key kyoto_prompt_built assms]
          kyoto_days
    by auto
  have "p = kyoto_plan"
    using p kyoto_createFallbackPlan by simp
  moreover have "destination kyoto_plan = kyoto"
    using kyoto_createFallbackPlan by (rule createFallbackPlan_destination)
  ultimately have "JObj [(js ''destination'', JStr kyoto), (js ''summary'', JStr (summary p)),
                         (js ''days'', JArr (map TravelPlanDay_json (days p)))] = kyoto_fallback"
    by (simp add: kyoto_fallback_def TravelPlan_json_def)
  with r show ?thesis
    by (simp add: NextResponse_json_def kyoto_fallback_def wire_TravelPlan_json)
qed

lemma content_empty_object:
  "completion_content (completion_with (js ''{}'')) = Inr (JStr (js ''{}''))"
  by code_simp

lemma content_no_plan:
  "completion_content (completion_with (js ''no plan today''))
   = Inr (JStr (js ''no plan today''))"
  by code_simp

lemma content_two_day:
  "completion_content (completion_with two_day_text) = Inr (JStr two_day_text)"
  by code_simp

lemma two_day_parse: "JSON_parse two_day_text = Inr two_day_plan"
  by code_simp

lemma two_day_wire: "wire two_day_plan = two_day_plan"
  by code_simp

theorem POST_generate_plan_shape_counterexample:
  "POST_generate_plan tokyo env_with_keys kyoto_request (completion_with (js ''{}''))
     = NextResponse (JObj []) 200
   \<and> \<not> valid_itinerary 3 (JObj [])"
proof -
  have "extract_plan (JStr (js ''{}'')) = Inr (JObj [])"
    by code_simp
  then have "POST_generate_plan tokyo env_with_keys kyoto_request (completion_with (js ''{}''))
             = NextResponse (wire (JObj [])) 200"
    by (rule POST_generate_plan_parsed
              [OF kyoto_request_read kyoto_key kyoto_prompt_built content_empty_object])
  moreover have "\<not> valid_itinerary 3 (JObj [])"
    by (simp add: valid_itinerary_def property_def)
  ultimately show ?thesis by simp
qed

theorem POST_generate_plan_shape_witness:
  "\<exists>body. POST_generate_plan tokyo env_with_keys kyoto_request
             (completion_with (js ''no plan today'')) = NextResponse body 200
         \<and> valid_itinerary 3 body"
proof -
  have x: "extract_plan (JStr (js ''no plan today'')) = Inl (Error ''No JSON found in response'')"
    by code_simp
  have o: "(1714521600000::int) \<le> 1714694400000"
    by simp
  have n: "(1714694400000 - 1714521600000) div msPerDay + 1 = 3"
    by (simp add: msPerDay_def)
  show ?thesis
    using POST_generate_plan_shape
            [OF kyoto_request_read o kyoto_key kyoto_prompt_built content_no_plan] x n
    by auto
qed

theorem POST_generate_plan_upstream_failure_counterexample:
  "POST_generate_plan tokyo env_without_keys kyoto_request Rejected
     = NextResponse error_body 500
   \<and> NextResponse error_body 500 \<noteq> NextResponse kyoto_fallback 200"
proof -
  have "unset (DEEPSEEK_API_KEY env_without_keys)"
    by (simp add: unset_def env_without_keys_def)
  then have "generate_plan tokyo env_without_keys kyoto_request Rejected
        = Inl (Error ''DeepSeek API key is not configured'')"
    by (simp add: generate_plan_def kyoto_request_read)
  then show ?thesis
    by (simp add: POST_generate_plan_def NextResponse_json_def wire_error_body)
qed

theorem POST_generate_plan_upstream_failure_witness:
  "POST_generate_plan tokyo env_without_keys kyoto_request Rejected
     = NextResponse error_body 500
   \<and> POST_generate_plan tokyo env_with_keys kyoto_request Rejected
     = NextResponse error_body 500
   \<and> POST_generate_plan tokyo env_with_keys kyoto_request (Response False (js ''{}''))
     = NextResponse error_body 500"
proof -
  have u: "unset (DEEPSEEK_API_KEY env_without_keys)"
    by (simp add: unset_def env_without_keys_def)
  show ?thesis
    using POST_generate_plan_upstream_failure [of env_without_keys Rejected tokyo kyoto_request]
          POST_generate_plan_upstream_failure [of env_with_keys Rejected tokyo kyoto_request]
          POST_generate_plan_upstream_failure
            [of env_with_keys "Response False (js ''{}'')" tokyo kyoto_request]
          u
    by simp
qed

theorem POST_generate_plan_day_count_counterexample:
  "JSON_parse two_day_text = Inr two_day_plan
   \<and> POST_generate_plan tokyo env_with_keys kyoto_request (completion_with two_day_text)
       = NextResponse two_day_plan 200
   \<and> NextResponse two_day_plan 200 \<noteq> NextResponse kyoto_fallback 200
   \<and> valid_itinerary 3 kyoto_fallback \<and> \<not> valid_itinerary 3 two_day_plan"
proof -
  have m: "match_braces two_day_text = Some two_day_text"
    by code_simp
  have "extract_plan (JStr two_day_text) = Inr two_day_plan"
    using m two_day_parse by (simp add: extract_plan_def)
  then have p: "POST_generate_plan tokyo env_with_keys kyoto_request
                  (completion_with two_day_text) = NextResponse two_day_plan 200"
    using POST_generate_plan_parsed
            [OF kyoto_request_read kyoto_key kyoto_prompt_built content_two_day] two_day_wire
    by simp
  have n: "\<not> valid_itinerary 3 two_day_plan"
    by (simp add: valid_itinerary_def two_day_plan_def property_def js_def)
  then have "two_day_plan \<noteq> kyoto_fallback"
    using kyoto_fallback_valid by auto
  then show ?thesis
    using two_day_parse p n kyoto_fallback_valid by simp
qed

theorem POST_generate_plan_day_count_witness:
  "POST_generate_plan tokyo env_with_keys kyoto_request (completion_with two_day_text)
     = NextResponse two_day_plan 200"
proof -
  have m: "match_braces two_day_text = Some two_day_text"
    by code_simp
  have d: "js_get two_day_plan (js ''days'')
           = Inr (JArr [JObj [(js ''day'', JNum (Num 1 0)), (js ''date'', JStr (js ''2024-05-01'')),
                              (js ''activities'', JArr [])],
                        JObj [(js ''day'', JNum (Num 2 0)), (js ''date'', JStr (js ''2024-05-02'')),
                              (js ''activities'', JArr [])]])"
    by (simp add: two_day_plan_def property_def js_def)
  show ?thesis
    using POST_generate_plan_day_count
            [OF kyoto_request_read kyoto_key kyoto_prompt_built content_two_day m two_day_parse d]
          kyoto_days two_day_wire
    by simp
qed

theorem POST_generate_plan_embedded_object_counterexample:
  \<open>first_balanced_span (js ''{"a":1} {"b":2}'') = Some (js ''{"a":1}'')
   \<and> JSON_parse (js ''{"a":1}'') = Inr (JObj [(js ''a'', JNum (Num 1 0))])
   \<and> POST_generate_plan tokyo env_with_keys kyoto_request
        (completion_with (js ''{"a":1} {"b":2}'')) = NextResponse kyoto_fallback 200
   \<and> POST_generate_plan tokyo env_with_keys kyoto_request
        (completion_with (js ''Plan {v1}: {"a":1}'')) = NextResponse kyoto_fallback 200
   \<and> NextResponse kyoto_fallback 200 \<noteq> NextResponse (JObj [(js ''a'', JNum (Num 1 0))]) 200\<close>
proof -
  have 1: \<open>first_balanced_span (js ''{"a":1} {"b":2}'') = Some (js ''{"a":1}'')\<close>
    by code_simp
  have 2: \<open>JSON_parse (js ''{"a":1}'') = Inr (JObj [(js ''a'', JNum (Num 1 0))])\<close>
    by code_simp
  have c3: \<open>completion_content (completion_with (js ''{"a":1} {"b":2}''))
            = Inr (JStr (js ''{"a":1} {"b":2}''))\<close>
    by code_simp
  have x3: \<open>extract_plan (JStr (js ''{"a":1} {"b":2}'')) = Inl SyntaxError\<close>
    by code_simp
  have c4: \<open>completion_content (completion_with (js ''Plan {v1}: {"a":1}''))
            = Inr (JStr (js ''Plan {v1}: {"a":1}''))\<close>
    by code_simp
  have x4: \<open>extract_plan (JStr (js ''Plan {v1}: {"a":1}'')) = Inl SyntaxError\<close>
    by code_simp
  have 5: "kyoto_fallback \<noteq> JObj [(js ''a'', JNum (Num 1 0))]"
    by (simp add: kyoto_fallback_def TravelPlan_json_def)
  show ?thesis
    using 1 2 kyoto_falls_back [OF c3 x3] kyoto_falls_back [OF c4 x4] 5 by simp
qed

theorem POST_generate_plan_embedded_object_witness:
  "POST_generate_plan tokyo env_with_keys kyoto_request
     (completion_with (js ''Here you go: '' @ two_day_text)) = NextResponse two_day_plan 200"
proof -
  let ?inner = "butlast (tl two_day_text)"
  have t: "[0x7B] @ ?inner @ [0x7D] = two_day_text"
    by code_simp
  have c: "completion_content (completion_with (js ''Here you go: '' @ two_day_text))
           = Inr (JStr (js ''Here you go: '' @ two_day_text))"
    by code_simp
  have b: "0x7B \<notin> set (js ''Here you go: '')"
    by code_simp
  have a: "0x7D \<notin> set ([] :: jsstring)"
    by simp
  show ?thesis
    using POST_generate_plan_embedded_object
            [of tokyo kyoto_request _ _ _ _ _ _ _ env_with_keys _ _ "js ''Here you go: ''" ?inner "[]"
                two_day_plan,
             OF kyoto_request_read kyoto_key kyoto_prompt_built _ b a]
          c two_day_parse two_day_wire
    unfolding t append_Nil2 by simp
qed

theorem POST_generate_plan_no_json_witness:
  "\<exists>plan. createFallbackPlan tokyo kyoto (Num 3 0) (Date 1714521600000) lit_sightseeing = Inr plan
         \<and> POST_generate_plan tokyo env_with_keys kyoto_request
             (completion_with (js ''no plan today'')) = NextResponse (TravelPlan_json plan) 200"
proof -
  have m: "match_braces (js ''no plan today'') = None"
    by code_simp
  show ?thesis
    using POST_generate_plan_no_json
            [OF kyoto_request_read kyoto_key kyoto_prompt_built content_no_plan] m kyoto_days
    by simp
qed

theorem POST_generate_plan_bad_request_witness:
  \<open>POST_generate_plan tokyo env_with_keys (js ''not json'') Rejected
     = NextResponse error_body 500
   \<and> POST_generate_plan tokyo env_with_keys (js ''{"destination":"x"}'')
       (completion_with (js ''{}'')) = NextResponse error_body 500\<close>
proof -
  have 1: "JSON_parse (js ''not json'') = Inl SyntaxError"
    by code_simp
  have 2: \<open>JSON_parse (js ''{"destination":"x"}'') = Inr (JObj [(js ''destination'', JStr (js ''x''))])\<close>
    by code_simp
  have 3: "js_get (JObj [(js ''destination'', JStr (js ''x''))]) (js ''dateRange'') = Inr JUndefined"
    by code_simp
  show ?thesis
    using POST_generate_plan_bad_request [of "js ''not json''" tokyo env_with_keys Rejected]
          POST_generate_plan_bad_request
            [of \<open>js ''{"destination":"x"}''\<close> tokyo env_with_keys "completion_with (js ''{}'')"]
          1 2 3
    by blast
qed

section \<open>The image route and the page\<close>

text \<open>
  Claim C8, at an input where the route departs from it.  With both keys set, for a search
  that answers with one result that has no \<open>link\<close>, the response has status 200 and its body
  is the empty object, without \<open>imageUrl\<close>.  For a search that answers with no result, and
  for a search whose response is not a success, the body is the placeholder.
\<close>

theorem POST_get_images_missing_link:
  \<open>POST_get_images env_with_keys (js ''{"query":"a b"}'')
     (Response True (js ''{"items":[{}]}'')) = NextResponse (JObj []) 200
   \<and> js_get (JObj []) (js ''imageUrl'') = Inr JUndefined
   \<and> POST_get_images env_with_keys (js ''{"query":"a b"}'')
       (Response True (js ''{"items":[]}'')) = NextResponse placeholder_body 200
   \<and> POST_get_images env_with_keys (js ''{"query":"a b"}'')
       (Response False (js ''{}'')) = NextResponse placeholder_body 200\<close>
  by code_simp

section \<open>Properties of the page\<close>

lemma remdups_snoc: "remdups (ys @ [x]) = remdups (filter (\<lambda>y. y \<noteq> x) ys) @ [x]"
  by (induction ys) auto

lemma firsts_Cons:
  "rev (remdups (rev (x # xs))) = x # rev (remdups (rev (filter (\<lambda>y. y \<noteq> x) xs)))"
  by (simp add: remdups_snoc rev_filter)

lemma foldl_Set_add:
  "foldl Set_add acc xs = acc @ rev (remdups (rev (filter (\<lambda>x. x \<notin> set acc) xs)))"
proof (induction xs arbitrary: acc)
  case Nil
  then show ?case by simp
next
  case (Cons y ys)
  show ?case
  proof (cases "y \<in> set acc")
    case True
    then show ?thesis
      using Cons [of acc] by (simp add: Set_add_def)
  next
    case False
    have "filter (\<lambda>x. x \<notin> set (acc @ [y])) ys
          = filter (\<lambda>x. x \<noteq> y) (filter (\<lambda>x. x \<notin> set acc) ys)"
      by (induction ys) auto
    then show ?thesis
      using False Cons [of "acc @ [y]"] firsts_Cons [of y "filter (\<lambda>x. x \<notin> set acc) ys"]
      by (simp add: Set_add_def)
  qed
qed

lemma new_Set_first_seen: "new_Set xs = rev (remdups (rev xs))"
  using foldl_Set_add [of "[]" xs] by (simp add: new_Set_def)

lemma Promise_all_resolved:
  "(\<And>x. x \<in> set xs \<Longrightarrow> f x = Inr (g x)) \<Longrightarrow> Promise_all (map f xs) = Inr (map g xs)"
  by (induction xs) simp_all

lemma Promise_all_rejected:
  "x \<in> set xs \<Longrightarrow> f x = Inl err \<Longrightarrow> \<exists>err'. Promise_all (map f xs) = Inl err'"
  by (induction xs) (auto split: sum.splits)

text \<open>The \<open>imageUrl\<close> that the page keeps for a lookup that has settled.\<close>

lemma lookup_image_settled:
  assumes "fetch_images (loc @ js '' '' @ dest) = Response ok t"
      and "ok \<longrightarrow> (\<exists>data url. JSON_parse t = Inr data \<and> js_get data (js ''imageUrl'') = Inr url)"
  shows "\<exists>url. lookup_image fetch_images dest loc = Inr (loc, url)
           \<and> (url = JStr (js ''/placeholder.svg'')
                \<or> (\<exists>t data. fetch_images (loc @ js '' '' @ dest) = Response True t
                       \<and> JSON_parse t = Inr data
                       \<and> js_get data (js ''imageUrl'') = Inr url))"
proof (cases ok)
  case False
  with assms(1) show ?thesis by (simp add: lookup_image_def)
next
  case True
  with assms(2) obtain data url where d: "JSON_parse t = Inr data"
    and u: "js_get data (js ''imageUrl'') = Inr url" by blast
  show ?thesis
  proof (cases "js_truthy url")
    case False
    with assms(1) True d u show ?thesis by (simp add: lookup_image_def)
  next
    case truthy: True
    with assms(1) True d u have "lookup_image fetch_images dest loc = Inr (loc, url)"
      by (simp add: lookup_image_def)
    moreover have "fetch_images (loc @ js '' '' @ dest) = Response True t"
      using assms(1) True by simp
    ultimately show ?thesis
      using d u by blast
  qed
qed

lemma enrich_locations_rejected:
  assumes "loc \<in> set (plan_locations planData)"
      and "fetch_images (loc @ js '' '' @ destination planData) = Rejected"
  shows "images_after_submit fetch_images planData = []"
proof -
  have "loc \<in> set (new_Set (plan_locations planData))"
    using assms(1) by (simp add: new_Set_first_seen)
  moreover have "lookup_image fetch_images (destination planData) loc = Inl TypeError"
    using assms(2) by (simp add: lookup_image_def)
  ultimately obtain err where "enrich_locations fetch_images planData = Inl err"
    unfolding enrich_locations_def Let_def
    using Promise_all_rejected by metis
  then show ?thesis
    by (simp add: images_after_submit_def)
qed

text \<open>
  When every lookup settles, that is, no request to the image route is rejected and every
  successful response has a JSON body from which \<open>imageUrl\<close> can be read, the images kept by
  the page hold exactly one entry per location of the plan, in the order of first
  occurrence; the \<open>imageUrl\<close> of an entry is the placeholder or the \<open>imageUrl\<close> of the
  response to its lookup.
\<close>

lemma images_when_lookups_settle:
  assumes "\<forall>loc \<in> set (plan_locations planData).
             \<exists>ok t. fetch_images (loc @ js '' '' @ destination planData) = Response ok t
                  \<and> (ok \<longrightarrow> (\<exists>data url. JSON_parse t = Inr data
                                    \<and> js_get data (js ''imageUrl'') = Inr url))"
  shows "\<exists>imageResults.
           enrich_locations fetch_images planData = Inr imageResults
         \<and> images_after_submit fetch_images planData = imageResults
         \<and> map fst imageResults = rev (remdups (rev (plan_locations planData)))
         \<and> distinct (map fst imageResults)
         \<and> set (map fst imageResults) = set (plan_locations planData)
         \<and> (\<forall>(loc, url) \<in> set imageResults.
               url = JStr (js ''/placeholder.svg'')
             \<or> (\<exists>t data. fetch_images (loc @ js '' '' @ destination planData) = Response True t
                    \<and> JSON_parse t = Inr data
                    \<and> js_get data (js ''imageUrl'') = Inr url))"
proof -
  let ?unique = "new_Set (plan_locations planData)"
  let ?look = "lookup_image fetch_images (destination planData)"
  let ?good = "\<lambda>loc url. url = JStr (js ''/placeholder.svg'')
                 \<or> (\<exists>t data. fetch_images (loc @ js '' '' @ destination planData) = Response True t
                        \<and> JSON_parse t = Inr data
                        \<and> js_get data (js ''imageUrl'') = Inr url)"
  have each: "\<exists>url. ?look loc = Inr (loc, url) \<and> ?good loc url" if "loc \<in> set ?unique" for loc
  proof -
    from that have "loc \<in> set (plan_locations planData)"
      by (simp add: new_Set_first_seen)
    with assms obtain ok t where
      "fetch_images (loc @ js '' '' @ destination planData) = Response ok t"
      "ok \<longrightarrow> (\<exists>data url. JSON_parse t = Inr data \<and> js_get data (js ''imageUrl'') = Inr url)"
      by blast
    then show ?thesis by (rule lookup_image_settled)
  qed
  define url_of where "url_of loc = (SOME url. ?look loc = Inr (loc, url) \<and> ?good loc url)" for loc
  have url_of: "?look loc = Inr (loc, url_of loc) \<and> ?good loc (url_of loc)"
    if "loc \<in> set ?unique" for loc
    unfolding url_of_def using each [OF that] by (rule someI_ex)
  let ?results = "map (\<lambda>loc. (loc, url_of loc)) ?unique"
  have p: "Promise_all (map ?look ?unique) = Inr ?results"
    by (rule Promise_all_resolved) (simp add: url_of)
  then have e: "enrich_locations fetch_images planData = Inr ?results"
    by (simp add: enrich_locations_def)
  have f: "map fst ?results = rev (remdups (rev (plan_locations planData)))"
    by (simp add: comp_def new_Set_first_seen)
  have g: "\<forall>(loc, url) \<in> set ?results. ?good loc url"
    using url_of by auto
  show ?thesis
    using e f g by (intro exI [of _ ?results]) (simp add: images_after_submit_def)
qed

lemma kyoto_unique_locations:
  "rev (remdups (rev (plan_locations kyoto_plan)))
   = map ((@) kyoto) [lit_hotel_restaurant, lit_popular_spot, lit_local_restaurant,
                      lit_activity_spot, lit_rated_restaurant, lit_hotel]"
  by code_simp

lemma unavailable_lookup:
  "lookup_image unavailable dest loc = Inr (loc, JStr (js ''/placeholder.svg''))"
  by (simp add: lookup_image_def unavailable_def)

text \<open>
  Claim C7, at an input where the page departs from it.  The fallback plan for the request
  of the scenarios has six locations.  When the requests to the image route are rejected,
  the page keeps no entry for any of them.  When the responses are not a success, the page
  keeps one entry per location, each with the placeholder.
\<close>

theorem images_after_submit_rejected:
  "rev (remdups (rev (plan_locations kyoto_plan)))
     = map ((@) kyoto) [lit_hotel_restaurant, lit_popular_spot, lit_local_restaurant,
                        lit_activity_spot, lit_rated_restaurant, lit_hotel]
   \<and> images_after_submit offline kyoto_plan = []
   \<and> images_after_submit unavailable kyoto_plan
     = map (\<lambda>suffix. (kyoto @ suffix, JStr (js ''/placeholder.svg'')))
         [lit_hotel_restaurant, lit_popular_spot, lit_local_restaurant,
          lit_activity_spot, lit_rated_restaurant, lit_hotel]"
proof -
  have "kyoto @ lit_hotel_restaurant \<in> set (rev (remdups (rev (plan_locations kyoto_plan))))"
    unfolding kyoto_unique_locations by simp
  then have "kyoto @ lit_hotel_restaurant \<in> set (plan_locations kyoto_plan)"
    by simp
  then have 1: "images_after_submit offline kyoto_plan = []"
    by (rule enrich_locations_rejected) (simp add: offline_def)
  have "Promise_all (map (lookup_image unavailable (destination kyoto_plan))
                       (new_Set (plan_locations kyoto_plan)))
        = Inr (map (\<lambda>loc. (loc, JStr (js ''/placeholder.svg''))) (new_Set (plan_locations kyoto_plan)))"
    by (rule Promise_all_resolved) (rule unavailable_lookup)
  then have 2: "images_after_submit unavailable kyoto_plan
        = map (\<lambda>loc. (loc, JStr (js ''/placeholder.svg'')))
            (rev (remdups (rev (plan_locations kyoto_plan))))"
    by (simp add: images_after_submit_def enrich_locations_def new_Set_first_seen)
  show ?thesis
    using 1 2 kyoto_unique_locations by simp
qed

end
